theory Spec2Isabelle
  imports Main
begin

section \<open>Type expressions\<close>

text \<open>
  Modelled from the spec: the module \<^verbatim>\<open>TExp\<close> is imported by the checker but is not
  among the sources. The spec's data model gives the closed set of shapes: \<open>Num\<close>,
  \<open>Bool\<close>, \<open>Str\<close>, \<open>Void\<close>, \<open>Empty\<close>, \<open>TVar(name)\<close>, \<open>Proc(paramTypes, returnType)\<close>
  and \<open>Pair(first, second)\<close>. The constructors carry the names of the source's
  \<^verbatim>\<open>makeNumTExp\<close>, \<^verbatim>\<open>makeBoolTExp\<close>, \<^verbatim>\<open>makeStrTExp\<close>, \<^verbatim>\<open>makeVoidTExp\<close>,
  \<^verbatim>\<open>makeEmptyTupleTExp\<close>, \<^verbatim>\<open>makeTVar\<close>, \<^verbatim>\<open>makeProcTExp\<close> and \<^verbatim>\<open>makePairTExp\<close>.
  Ramda's \<^verbatim>\<open>equals\<close> on two such values is deep structural equality, which is HOL's
  \<open>=\<close> on the datatype.
\<close>

datatype TExp =
    NumTExp
  | BoolTExp
  | StrTExp
  | VoidTExp
  | EmptyTupleTExp
  | TVar string
  | ProcTExp "TExp list" TExp
  | PairTExp TExp TExp

fun isProcTExp :: "TExp \<Rightarrow> bool" where
  "isProcTExp (ProcTExp ps r) = True"
| "isProcTExp t = False"

fun isPairTExp :: "TExp \<Rightarrow> bool" where
  "isPairTExp (PairTExp a b) = True"
| "isPairTExp t = False"

text \<open>
  Modelled from the spec: \<^verbatim>\<open>isContainedTvar\<close> belongs to the absent module \<^verbatim>\<open>TExp\<close>.
  The spec's words for it: the type expression "syntactically contains that same
  variable name as a \<open>TVar\<close>".
\<close>

fun isContainedTvar :: "string \<Rightarrow> TExp \<Rightarrow> bool" where
  "isContainedTvar v (TVar n) = (n = v)"
| "isContainedTvar v (ProcTExp ps r) =
     ((\<exists>p \<in> set ps. isContainedTvar v p) \<or> isContainedTvar v r)"
| "isContainedTvar v (PairTExp a b) = (isContainedTvar v a \<or> isContainedTvar v b)"
| "isContainedTvar v t = False"

text \<open>
  Modelled from the spec: the text rendering \<^verbatim>\<open>unparseTExp\<close> of the absent module
  \<^verbatim>\<open>TExp\<close>. It "must round-trip with the surface type-annotation syntax": \<open>number\<close>,
  \<open>boolean\<close>, \<open>string\<close>, \<open>void\<close>, a type variable by its name, \<open>Empty\<close> as the
  zero-parameter marker, \<open>(T1 * T2 * ... -> R)\<close> for procedure types and
  \<open>(Pair T1 T2)\<close> for pair types.
\<close>

fun joinWith :: "string \<Rightarrow> string list \<Rightarrow> string" where
  "joinWith sep [] = []"
| "joinWith sep [s] = s"
| "joinWith sep (s # t # ss) = s @ sep @ joinWith sep (t # ss)"

fun unparseTExpText :: "TExp \<Rightarrow> string" where
  "unparseTExpText NumTExp = ''number''"
| "unparseTExpText BoolTExp = ''boolean''"
| "unparseTExpText StrTExp = ''string''"
| "unparseTExpText VoidTExp = ''void''"
| "unparseTExpText EmptyTupleTExp = ''Empty''"
| "unparseTExpText (TVar n) = n"
| "unparseTExpText (ProcTExp ps r) =
     ''('' @ (if ps = [] then ''Empty'' else joinWith '' * '' (map unparseTExpText ps))
       @ '' -> '' @ unparseTExpText r @ '')''"
| "unparseTExpText (PairTExp a b) =
     ''(Pair '' @ unparseTExpText a @ '' '' @ unparseTExpText b @ '')''"

section \<open>Quoted values and the abstract syntax\<close>

text \<open>
  Modelled from the spec: the module \<^verbatim>\<open>L5-value\<close> is not among the sources. The spec
  names the quoted data the checker classifies: numbers, booleans, strings, symbols,
  the empty list and binary compound cells. The checker never reads a number's
  value, so a JavaScript number is held as an \<open>int\<close>.
\<close>

datatype SExpValue =
    SNumber int
  | SBoolean bool
  | SString string
  | SymbolSExp string
  | EmptySExp
  | CompoundSExp SExpValue SExpValue

fun isCompoundSExp :: "SExpValue \<Rightarrow> bool" where
  "isCompoundSExp (CompoundSExp a b) = True"
| "isCompoundSExp x = False"

text \<open>
  Modelled from the spec: the module \<^verbatim>\<open>L5-ast\<close> is not among the sources. The spec
  lists the node variants and their fields; the constructors and selectors carry
  the names the checker uses (\<^verbatim>\<open>isNumExp\<close>, \<^verbatim>\<open>exp.var.texp\<close>, \<^verbatim>\<open>proc.returnTE\<close>,
  \<^verbatim>\<open>app.rands\<close>, ...). The source's \<^verbatim>\<open>Parsed = Exp | Program\<close> is one datatype here,
  as \<^verbatim>\<open>typeofExp\<close> dispatches on the tag of either.
\<close>

datatype VarDecl = VarDecl (var: string) (texp: TExp)

datatype Exp =
    NumExp int
  | BoolExp bool
  | StrExp string
  | PrimOp (op: string)
  | VarRef string
  | IfExp Exp Exp Exp
  | ProcExp (args: "VarDecl list") (body: "Exp list") (returnTE: TExp)
  | AppExp (rator: Exp) (rands: "Exp list")
  | LetExp (bindings: "Binding list") (body: "Exp list")
  | LetrecExp (bindings: "Binding list") (body: "Exp list")
  | DefineExp VarDecl Exp
  | Program (exps: "Exp list")
  | LitExp SExpValue
and Binding = Binding (bvar: VarDecl) (bval: Exp)

fun isPrimOp :: "Exp \<Rightarrow> bool" where
  "isPrimOp (PrimOp s) = True"
| "isPrimOp e = False"

fun isProcExp :: "Exp \<Rightarrow> bool" where
  "isProcExp (ProcExp ps b r) = True"
| "isProcExp e = False"

fun isDefineExp :: "Exp \<Rightarrow> bool" where
  "isDefineExp (DefineExp vd v) = True"
| "isDefineExp e = False"

section \<open>Results and failures\<close>

text \<open>
  Modelled from the spec: the module \<^verbatim>\<open>shared/result\<close> is not among the sources. It is
  the spec's two-variant outcome type with its sequencing combinator \<^verbatim>\<open>bind\<close>.
  The source's \<^verbatim>\<open>Result<T>\<close> is \<open>Ok\<close> with a value or \<open>Failure\<close> with a message; here
  \<open>Inr\<close> is \<open>Ok\<close> and \<open>Inl\<close> the failure. A failure whose message is a fixed text is
  \<open>Failure\<close> with that text. Messages that the source assembles through the
  external renderers \<^verbatim>\<open>unparse\<close> and \<^verbatim>\<open>format\<close> of AST nodes (not among the
  sources) are kept as structured values holding the parts of the message.
\<close>

datatype failure =
    Failure string
  | IncompatibleTypes TExp TExp Exp
  | ApplicationOfNonProcedure TExp Exp
  | WrongParameterNumbers Exp
  | LetrecNonProcedure Exp
  | TypeVariableNotFound string
  | UndefinedRead

text \<open>
  \<open>UndefinedRead\<close> stands for an array read past the end of a frame's type sequence,
  where JavaScript yields \<^verbatim>\<open>undefined\<close>, a value outside \<open>TExp\<close>: the model stops there
  and follows the source no further. Frames whose two sequences have equal length
  (all frames the checker builds) never reach it.
\<close>

definition bind :: "'f + 'a \<Rightarrow> ('a \<Rightarrow> 'f + 'b) \<Rightarrow> 'f + 'b" where
  "bind r f = (case r of Inl e \<Rightarrow> Inl e | Inr v \<Rightarrow> f v)"

definition isFailure :: "'f + 'a \<Rightarrow> bool" where
  "isFailure r = (case r of Inl e \<Rightarrow> True | Inr v \<Rightarrow> False)"

definition unparseTExp :: "TExp \<Rightarrow> 'f + string" where
  "unparseTExp te = Inr (unparseTExpText te)"

section \<open>Type environments\<close>

datatype TEnv =
    EmptyTEnv
  | ExtendTEnv "string list" "TExp list" TEnv

abbreviation makeEmptyTEnv :: TEnv where
  "makeEmptyTEnv \<equiv> EmptyTEnv"

abbreviation makeExtendTEnv :: "string list \<Rightarrow> TExp list \<Rightarrow> TEnv \<Rightarrow> TEnv" where
  "makeExtendTEnv \<equiv> ExtendTEnv"

fun isEmptyTEnv :: "TEnv \<Rightarrow> bool" where
  "isEmptyTEnv EmptyTEnv = True"
| "isEmptyTEnv (ExtendTEnv vs ts e) = False"

text \<open>JavaScript's \<^verbatim>\<open>indexOf\<close>: the first position of the element, or \<open>-1\<close>.\<close>

fun indexOf :: "'a list \<Rightarrow> 'a \<Rightarrow> int" where
  "indexOf [] v = -1"
| "indexOf (x # xs) v =
     (if x = v then 0 else (let i = indexOf xs v in if i = -1 then -1 else i + 1))"

text \<open>An array read \<^verbatim>\<open>texps[pos]\<close>; past the end the model stops with \<open>UndefinedRead\<close>.\<close>

definition readAt :: "TExp list \<Rightarrow> int \<Rightarrow> failure + TExp" where
  "readAt ts i = (if 0 \<le> i \<and> i < int (length ts) then Inr (ts ! nat i) else Inl UndefinedRead)"

fun applyTEnv :: "TEnv \<Rightarrow> string \<Rightarrow> failure + TExp"
  and applyExtendTEnv :: "TExp list \<Rightarrow> TEnv \<Rightarrow> string \<Rightarrow> int \<Rightarrow> failure + TExp" where
  "applyTEnv EmptyTEnv v = Inl (TypeVariableNotFound v)"
| "applyTEnv (ExtendTEnv vs ts e) v = applyExtendTEnv ts e v (indexOf vs v)"
| "applyExtendTEnv ts e v pos =
     (if pos = -1 then applyTEnv e v
      else readAt ts pos)"

text \<open>
  Modelled from the spec: \<^verbatim>\<open>mapResult\<close> of the absent module \<^verbatim>\<open>shared/result\<close>, the
  list-wise combination that stops at the first failure.
\<close>

fun mapResult :: "('a \<Rightarrow> 'f + 'b) \<Rightarrow> 'a list \<Rightarrow> 'f + 'b list" where
  "mapResult f [] = Inr []"
| "mapResult f (x # xs) =
     bind (f x) (\<lambda>y. bind (mapResult f xs) (\<lambda>ys. Inr (y # ys)))"

text \<open>
  \<^verbatim>\<open>Array.prototype.some\<close> with the element's index, started at index \<open>i\<close>; the
  predicate may stop on an array read past the end.
\<close>

fun someIndexed :: "('a \<Rightarrow> int \<Rightarrow> 'f + bool) \<Rightarrow> 'a list \<Rightarrow> int \<Rightarrow> 'f + bool" where
  "someIndexed f [] i = Inr False"
| "someIndexed f (x # xs) i =
     bind (f x i) (\<lambda>b. if b then Inr True else someIndexed f xs (i + 1))"

fun makeNewEnv :: "TEnv \<Rightarrow> TEnv \<Rightarrow> failure + TEnv" where
  "makeNewEnv firstEnv (ExtendTEnv secondEnvVars secondEnvTexps e2) =
     bind (someIndexed (\<lambda>variable index.
              bind (readAt secondEnvTexps index) (\<lambda>t. Inr (isContainedTvar variable t)))
            secondEnvVars 0)
       (\<lambda>selfDefined.
          if selfDefined then Inl (Failure ''Variable is defined recursivly'')
          else
            (let isNotInFirst = (\<lambda>variable. isFailure (applyTEnv firstEnv variable));
                 diffVars = filter isNotInFirst secondEnvVars
             in bind (mapResult (\<lambda>v. readAt secondEnvTexps (indexOf secondEnvVars v)) diffVars)
                  (\<lambda>diffTexps. Inr (makeExtendTEnv diffVars diffTexps firstEnv))))"

definition combineEnvs :: "TEnv \<Rightarrow> TEnv \<Rightarrow> failure + TEnv" where
  "combineEnvs firstEnv secondEnv =
     (if isEmptyTEnv firstEnv then Inr secondEnv
      else if isEmptyTEnv secondEnv then Inr firstEnv
      else makeNewEnv firstEnv secondEnv)"

section \<open>The type checker\<close>

text \<open>
  Modelled from the spec: \<^verbatim>\<open>zipWithResult\<close> of the absent module \<^verbatim>\<open>shared/result\<close>,
  the list-wise combination of two sequences that stops at the first failure, and
  ramda's \<^verbatim>\<open>zipWith\<close>; both end with the shorter sequence. \<^verbatim>\<open>allT\<close> of the absent
  module \<^verbatim>\<open>shared/list\<close> tests every element of a list.
\<close>

fun zipWithResult :: "('a \<Rightarrow> 'b \<Rightarrow> 'f + 'c) \<Rightarrow> 'a list \<Rightarrow> 'b list \<Rightarrow> 'f + 'c list" where
  "zipWithResult f (x # xs) (y # ys) =
     bind (f x y) (\<lambda>fxy. bind (zipWithResult f xs ys) (\<lambda>fxys. Inr (fxy # fxys)))"
| "zipWithResult f xs ys = Inr []"

definition zipWith :: "('a \<Rightarrow> 'b \<Rightarrow> 'c) \<Rightarrow> 'a list \<Rightarrow> 'b list \<Rightarrow> 'c list" where
  "zipWith f xs ys = map (\<lambda>(x, y). f x y) (zip xs ys)"

definition allT :: "('a \<Rightarrow> bool) \<Rightarrow> 'a list \<Rightarrow> bool" where
  "allT isT xs = list_all isT xs"

lemma bind_cong [fundef_cong]:
  "r = r' \<Longrightarrow> (\<And>v. r' = Inr v \<Longrightarrow> f v = f' v) \<Longrightarrow> bind r f = bind r' f'"
  by (simp add: bind_def split: sum.splits)

lemma zipWithResult_cong [fundef_cong]:
  "xs = xs' \<Longrightarrow> ys = ys' \<Longrightarrow> (\<And>x y. x \<in> set xs' \<Longrightarrow> y \<in> set ys' \<Longrightarrow> f x y = f' x y)
     \<Longrightarrow> zipWithResult f xs ys = zipWithResult f' xs' ys'"
proof (induction f xs ys arbitrary: xs' ys' rule: zipWithResult.induct)
  case (1 f x xs y ys)
  have "zipWithResult f xs ys = zipWithResult f' xs ys"
    using "1.prems" by (intro "1.IH") auto
  moreover have "f x y = f' x y"
    using "1.prems" by auto
  ultimately show ?case
    using "1.prems" by auto
qed auto

text \<open>
  The source renders both types and the expression into the message
  \<^verbatim>\<open>Incompatible types: te1 and te2 in exp\<close>; the model keeps the three parts.
\<close>

definition checkEqualType :: "TExp \<Rightarrow> TExp \<Rightarrow> Exp \<Rightarrow> failure + unit" where
  "checkEqualType te1 te2 exp =
     (if te1 = te2 then Inr () else Inl (IncompatibleTypes te1 te2 exp))"

fun typeofSExpLiteral :: "SExpValue \<Rightarrow> failure + TExp"
  and typeofCompoundSExp :: "SExpValue \<Rightarrow> failure + TExp" where
  "typeofSExpLiteral (SNumber n) = Inr NumTExp"
| "typeofSExpLiteral (SBoolean b) = Inr BoolTExp"
| "typeofSExpLiteral (SString s) = Inr StrTExp"
| "typeofSExpLiteral (SymbolSExp s) = Inr (TVar ''literal'')"
| "typeofSExpLiteral EmptySExp = Inr EmptyTupleTExp"
| "typeofSExpLiteral (CompoundSExp val1 val2) = typeofCompoundSExp (CompoundSExp val1 val2)"
| "typeofCompoundSExp (CompoundSExp val1 val2) =
     bind (typeofSExpLiteral val1) (\<lambda>leftTE.
     bind (typeofSExpLiteral val2) (\<lambda>rightTE.
       Inr (PairTExp leftTE rightTE)))"

fun typeofLit :: "Exp \<Rightarrow> failure + TExp" where
  "typeofLit (LitExp v) =
     (if isCompoundSExp v then typeofCompoundSExp v else Inr (TVar ''literal''))"

text \<open>
  The classification of a literal value in the spec's words, to compare the source's
  \<^verbatim>\<open>typeofSExpLiteral\<close> and \<^verbatim>\<open>typeofCompoundSExp\<close> with: "numbers/booleans/strings yield
  \<open>Num\<close>/\<open>Bool\<close>/\<open>Str\<close>; a symbol yields the fixed type variable named \<open>literal\<close>; the
  empty value yields the \<open>Empty\<close> marker; a compound (pair-shaped) literal recursively
  classifies both halves and yields \<open>Pair(classify(first), classify(second))\<close>".
\<close>

fun classifySpec :: "SExpValue \<Rightarrow> TExp" where
  "classifySpec (SNumber n) = NumTExp"
| "classifySpec (SBoolean b) = BoolTExp"
| "classifySpec (SString s) = StrTExp"
| "classifySpec (SymbolSExp s) = TVar ''literal''"
| "classifySpec EmptySExp = EmptyTupleTExp"
| "classifySpec (CompoundSExp val1 val2) = PairTExp (classifySpec val1) (classifySpec val2)"

text \<open>
  Modelled from the spec: \<^verbatim>\<open>parseTE\<close> of the absent module \<^verbatim>\<open>TExp\<close> reads the surface
  type-annotation syntax: \<open>number\<close>, \<open>boolean\<close>, \<open>void\<close>, an uppercase-leading
  identifier as the type variable of that name, \<open>Empty\<close> as the zero-parameter
  marker, \<open>(T1 * ... -> R)\<close> and \<open>(Pair T1 T2)\<close>. Only the texts that the checker
  passes to it are modelled; any other text is outside the table.
\<close>

definition parseTE :: "string \<Rightarrow> failure + TExp" where
  "parseTE s =
     (if s = ''(number * number -> number)'' then Inr (ProcTExp [NumTExp, NumTExp] NumTExp)
      else if s = ''(number * number -> boolean)'' then Inr (ProcTExp [NumTExp, NumTExp] BoolTExp)
      else if s = ''(boolean * boolean -> boolean)'' then Inr (ProcTExp [BoolTExp, BoolTExp] BoolTExp)
      else if s = ''(T -> boolean)'' then Inr (ProcTExp [TVar ''T''] BoolTExp)
      else if s = ''(boolean -> boolean)'' then Inr (ProcTExp [BoolTExp] BoolTExp)
      else if s = ''(T1 * T2 -> boolean)'' then Inr (ProcTExp [TVar ''T1'', TVar ''T2''] BoolTExp)
      else if s = ''(T -> void)'' then Inr (ProcTExp [TVar ''T''] VoidTExp)
      else if s = ''(Empty -> void)'' then Inr (ProcTExp [] VoidTExp)
      else if s = ''(T1 * T2 -> (Pair T1 T2))'' then
        Inr (ProcTExp [TVar ''T1'', TVar ''T2''] (PairTExp (TVar ''T1'') (TVar ''T2'')))
      else if s = ''((Pair T1 T2) -> T1)'' then
        Inr (ProcTExp [PairTExp (TVar ''T1'') (TVar ''T2'')] (TVar ''T1''))
      else if s = ''((Pair T1 T2) -> T2)'' then
        Inr (ProcTExp [PairTExp (TVar ''T1'') (TVar ''T2'')] (TVar ''T2''))
      else Inl (Failure ''parseTE: text outside the table''))"

definition typeofNum :: "Exp \<Rightarrow> TExp" where
  "typeofNum n = NumTExp"

definition typeofBool :: "Exp \<Rightarrow> TExp" where
  "typeofBool b = BoolTExp"

definition typeofStr :: "Exp \<Rightarrow> TExp" where
  "typeofStr s = StrTExp"

definition numOpTExp :: "failure + TExp" where
  "numOpTExp = parseTE ''(number * number -> number)''"

definition numCompTExp :: "failure + TExp" where
  "numCompTExp = parseTE ''(number * number -> boolean)''"

definition boolOpTExp :: "failure + TExp" where
  "boolOpTExp = parseTE ''(boolean * boolean -> boolean)''"

fun typeofPrim :: "Exp \<Rightarrow> failure + TExp" where
  "typeofPrim (PrimOp p) =
     (if p = ''+'' then numOpTExp
      else if p = ''-'' then numOpTExp
      else if p = ''*'' then numOpTExp
      else if p = ''/'' then numOpTExp
      else if p = ''and'' then boolOpTExp
      else if p = ''or'' then boolOpTExp
      else if p = ''>'' then numCompTExp
      else if p = ''<'' then numCompTExp
      else if p = ''='' then numCompTExp
      else if p = ''number?'' then parseTE ''(T -> boolean)''
      else if p = ''boolean?'' then parseTE ''(T -> boolean)''
      else if p = ''string?'' then parseTE ''(T -> boolean)''
      else if p = ''list?'' then parseTE ''(T -> boolean)''
      else if p = ''pair?'' then parseTE ''(T -> boolean)''
      else if p = ''symbol?'' then parseTE ''(T -> boolean)''
      else if p = ''not'' then parseTE ''(boolean -> boolean)''
      else if p = ''eq?'' then parseTE ''(T1 * T2 -> boolean)''
      else if p = ''string=?'' then parseTE ''(T1 * T2 -> boolean)''
      else if p = ''display'' then parseTE ''(T -> void)''
      else if p = ''newline'' then parseTE ''(Empty -> void)''
      else if p = ''cons'' then parseTE ''(T1 * T2 -> (Pair T1 T2))''
      else if p = ''car'' then parseTE ''((Pair T1 T2) -> T1)''
      else if p = ''cdr'' then parseTE ''((Pair T1 T2) -> T2)''
      else Inl (Failure ''Operator not supported''))"

text \<open>
  The functions of the checker call one another, so they form one mutually recursive
  definition. \<^verbatim>\<open>typeofIf\<close>, \<^verbatim>\<open>typeofProc\<close>, \<^verbatim>\<open>typeofApp\<close>, \<^verbatim>\<open>typeofLet\<close>, \<^verbatim>\<open>typeofLetrec\<close>,
  \<^verbatim>\<open>typeofDefineExps\<close>, \<^verbatim>\<open>typeofDefine\<close> and \<^verbatim>\<open>typeofProgram\<close> receive the node as in the
  source and read its fields by a case on it; the source's types hand them no other
  node. The last branches of the source's dispatch chains, \<^verbatim>\<open>Unknown type\<close> in
  \<^verbatim>\<open>typeofExp\<close> and \<^verbatim>\<open>Unknown SExp value\<close> in \<^verbatim>\<open>typeofSExpLiteral\<close>, have no counterpart
  here, the datatypes being closed. The three lemmas bound the sizes of the
  sub-expressions that the recursive calls descend into.
\<close>

lemma size_elem_less: "x \<in> set xs \<Longrightarrow> size (x :: Exp) < Suc (size_list size xs)"
  by (induction xs) auto

lemma size_bval_less: "b \<in> set bs \<Longrightarrow> size (bval b) < size_list size bs"
  by (induction bs) (auto simp: less_Suc_eq split: Binding.splits, (case_tac b; simp)+)

lemma size_body_less:
  "b \<in> set bs \<Longrightarrow> isProcExp (bval b) \<Longrightarrow> size_list size (body (bval b)) < size_list size bs"
  using size_bval_less [of b bs] by (cases "bval b") auto

function (sequential)
      typeofExp :: "Exp \<Rightarrow> TEnv \<Rightarrow> failure + TExp"
  and typeofExps :: "Exp list \<Rightarrow> TEnv \<Rightarrow> failure + TExp"
  and typeofIf :: "Exp \<Rightarrow> TEnv \<Rightarrow> failure + TExp"
  and typeofProc :: "Exp \<Rightarrow> TEnv \<Rightarrow> failure + TExp"
  and typeofApp :: "Exp \<Rightarrow> TEnv \<Rightarrow> failure + TExp"
  and typeofLet :: "Exp \<Rightarrow> TEnv \<Rightarrow> failure + TExp"
  and typeofLetrec :: "Exp \<Rightarrow> TEnv \<Rightarrow> failure + TExp"
  and typeOfSequence :: "Exp list \<Rightarrow> TEnv \<Rightarrow> failure + TExp"
  and typeOfFirst :: "Exp \<Rightarrow> Exp list \<Rightarrow> TEnv \<Rightarrow> failure + TExp"
  and typeofDefineExps :: "Exp \<Rightarrow> Exp list \<Rightarrow> TEnv \<Rightarrow> failure + TExp"
  and typeofDefine :: "Exp \<Rightarrow> TEnv \<Rightarrow> failure + TExp"
  and typeofProgram :: "Exp \<Rightarrow> TEnv \<Rightarrow> failure + TExp"
where
  "typeofExp (NumExp n) tenv = Inr (typeofNum (NumExp n))"
| "typeofExp (BoolExp b) tenv = Inr (typeofBool (BoolExp b))"
| "typeofExp (StrExp s) tenv = Inr (typeofStr (StrExp s))"
| "typeofExp (PrimOp p) tenv = typeofPrim (PrimOp p)"
| "typeofExp (VarRef v) tenv = applyTEnv tenv v"
| "typeofExp (IfExp c t a) tenv = typeofIf (IfExp c t a) tenv"
| "typeofExp (ProcExp ps b r) tenv = typeofProc (ProcExp ps b r) tenv"
| "typeofExp (AppExp f es) tenv = typeofApp (AppExp f es) tenv"
| "typeofExp (LetExp bs b) tenv = typeofLet (LetExp bs b) tenv"
| "typeofExp (LetrecExp bs b) tenv = typeofLetrec (LetrecExp bs b) tenv"
| "typeofExp (DefineExp vd v) tenv = typeofDefine (DefineExp vd v) tenv"
| "typeofExp (Program es) tenv = typeofProgram (Program es) tenv"
| "typeofExp (LitExp v) tenv = typeofLit (LitExp v)"

| "typeofExps [] tenv = Inl (Failure ''Unexpected empty list of expressions'')"
| "typeofExps (e # es) tenv =
     (if es = [] then typeofExp e tenv
      else bind (typeofExp e tenv) (\<lambda>_. typeofExps es tenv))"

| "typeofIf ifExp tenv =
     (case ifExp of IfExp test thn alt \<Rightarrow>
        (let testTE = typeofExp test tenv;
             thenTE = typeofExp thn tenv;
             altTE = typeofExp alt tenv;
             constraint1 = bind testTE (\<lambda>testTE. checkEqualType testTE BoolTExp ifExp);
             constraint2 = bind thenTE (\<lambda>thenTE.
                             bind altTE (\<lambda>altTE. checkEqualType thenTE altTE ifExp))
         in bind constraint1 (\<lambda>c1. bind constraint2 (\<lambda>c2. thenTE))))"

| "typeofProc proc tenv =
     (case proc of ProcExp params bdy retTE \<Rightarrow>
        (let argsTEs = map (\<lambda>vd. texp vd) params;
             extTEnv = makeExtendTEnv (map (\<lambda>vd. var vd) params) argsTEs tenv;
             constraint1 = bind (typeofExps bdy extTEnv) (\<lambda>b. checkEqualType b retTE proc)
         in bind constraint1 (\<lambda>_. Inr (ProcTExp argsTEs retTE))))"

| "typeofApp app tenv =
     (case app of AppExp rtr rnds \<Rightarrow>
        if isPrimOp rtr \<and> op rtr = ''car'' then
          (if length rnds \<noteq> 1 then Inl (Failure ''cdr expects exactly 1 argument'')
           else bind (typeofExp (rnds ! 0) tenv) (\<lambda>pair.
                  case pair of
                    PairTExp fst_te snd_te \<Rightarrow> Inr fst_te
                  | _ \<Rightarrow> Inl (Failure ''cdr expected a pair'')))
        else if isPrimOp rtr \<and> op rtr = ''cdr'' then
          (if length rnds \<noteq> 1 then Inl (Failure ''cdr expects exactly 1 argument'')
           else bind (typeofExp (rnds ! 0) tenv) (\<lambda>pair.
                  case pair of
                    PairTExp fst_te snd_te \<Rightarrow> Inr snd_te
                  | _ \<Rightarrow> Inl (Failure ''cdr expected a pair'')))
        else if isPrimOp rtr \<and> op rtr = ''cons'' then
          (if length rnds \<noteq> 2 then Inl (Failure ''cons expects exactly 2 arguments'')
           else bind (typeofExp (rnds ! 0) tenv) (\<lambda>t1.
                  bind (typeofExp (rnds ! 1) tenv) (\<lambda>t2.
                    Inr (PairTExp t1 t2))))
        else
          bind (typeofExp rtr tenv) (\<lambda>ratorTE.
            case ratorTE of
              ProcTExp paramTEs retTE \<Rightarrow>
                if length rnds \<noteq> length paramTEs then Inl (WrongParameterNumbers app)
                else
                  (let constraints =
                         zipWithResult (\<lambda>rand trand.
                             bind (typeofExp rand tenv) (\<lambda>typeOfRand.
                               checkEqualType typeOfRand trand app))
                           rnds paramTEs
                   in bind constraints (\<lambda>_. Inr retTE))
            | _ \<Rightarrow> Inl (ApplicationOfNonProcedure ratorTE app)))"

| "typeofLet exp tenv =
     (case exp of LetExp bnds bdy \<Rightarrow>
        (let vs = map (\<lambda>b. var (bvar b)) bnds;
             vals = map (\<lambda>b. bval b) bnds;
             varTEs = map (\<lambda>b. texp (bvar b)) bnds;
             constraints =
               zipWithResult (\<lambda>varTE val.
                   bind (typeofExp val tenv) (\<lambda>typeOfVal. checkEqualType varTE typeOfVal exp))
                 varTEs vals
         in bind constraints (\<lambda>_. typeofExps bdy (makeExtendTEnv vs varTEs tenv))))"

| "typeofLetrec exp tenv =
     (case exp of LetrecExp bnds bdy \<Rightarrow>
        (let ps = map (\<lambda>b. var (bvar b)) bnds;
             procs = map (\<lambda>b. bval b) bnds
         in if \<not> allT isProcExp procs then Inl (LetrecNonProcedure exp)
            else
              (let paramss = map (\<lambda>p. args p) procs;
                   bodies = map (\<lambda>p. body p) procs;
                   tijs = map (\<lambda>params. map (\<lambda>p. texp p) params) paramss;
                   tis = map (\<lambda>proc. returnTE proc) procs;
                   tenvBody = makeExtendTEnv ps
                                (zipWith (\<lambda>tij ti. ProcTExp tij ti) tijs tis) tenv;
                   tenvIs = zipWith (\<lambda>params tij.
                                makeExtendTEnv (map (\<lambda>p. var p) params) tij tenvBody)
                              paramss tijs;
                   types = zipWithResult (\<lambda>bodyI tenvI. typeofExps bodyI tenvI) bodies tenvIs;
                   constraints = bind types (\<lambda>types.
                                   zipWithResult (\<lambda>typeI ti. checkEqualType typeI ti exp)
                                     types tis)
               in bind constraints (\<lambda>_. typeofExps bdy tenvBody))))"

| "typeOfSequence [] env = Inl (Failure ''Empty sequence'')"
| "typeOfSequence (e # es) env = typeOfFirst e es env"

| "typeOfFirst first rest env =
     (if isDefineExp first then typeofDefineExps first rest env
      else if rest = [] then typeofExp first env
      else bind (typeofExp first env) (\<lambda>_. typeOfSequence rest env))"

| "typeofDefineExps exp rest tenv =
     (case exp of DefineExp vd val \<Rightarrow>
        (let valTE = typeofExp val tenv;
             constraint = bind valTE (\<lambda>valTE. checkEqualType (texp vd) valTE exp);
             newEnv = makeExtendTEnv [var vd] [texp vd] tenv
         in bind constraint (\<lambda>_.
              bind (combineEnvs tenv newEnv) (\<lambda>env.
                typeOfSequence rest env))))"

| "typeofDefine exp tenv =
     (case exp of DefineExp vd val \<Rightarrow>
        (let valTE = typeofExp val tenv;
             constraint = bind valTE (\<lambda>valTE. checkEqualType (texp vd) valTE exp)
         in bind constraint (\<lambda>_. Inr VoidTExp)))"

| "typeofProgram exp tenv =
     (case exp of Program es \<Rightarrow> typeOfSequence es tenv)"
  by pat_completeness auto

termination
proof (relation "measure
   (case_sum
     (case_sum
       (case_sum (\<lambda>(e, _). 2 * size e + 1)
         (case_sum (\<lambda>(es, _). 2 * size_list size es + 1) (\<lambda>(e, _). 2 * size e)))
       (case_sum (\<lambda>(e, _). 2 * size e)
         (case_sum (\<lambda>(e, _). 2 * size e) (\<lambda>(e, _). 2 * size e))))
     (case_sum
       (case_sum (\<lambda>(e, _). 2 * size e)
         (case_sum (\<lambda>(es, _). 2 * size_list size es + 1)
           (\<lambda>(e, es, _). 2 * size e + 2 * size_list size es + 2)))
       (case_sum (\<lambda>(e, es, _). 2 * size e + 2 * size_list size es + 1)
         (case_sum (\<lambda>(e, _). 2 * size e) (\<lambda>(e, _). 2 * size e)))))", goal_cases)
  case (16 app tenv f es)
  then show ?case using size_elem_less [of "es ! 0" es] by (cases es) auto
next
  case (17 app tenv f es)
  then show ?case using size_elem_less [of "es ! 0" es] by (cases es) auto
next
  case (18 app tenv f es)
  then show ?case using size_elem_less [of "es ! 0" es] by (cases es) auto
next
  case (19 app tenv f es v)
  then show ?case using size_elem_less [of "es ! 1" es] by (cases es) auto
next
  case (21 app tenv f es v ps r x y)
  then show ?case using size_elem_less [of x es] by auto
next
  case (22 exp tenv bs b x xa xb xc y)
  then show ?case by (auto dest!: size_bval_less)
next
  case (24 exp tenv bs b x xa xb xc xd xe xaa xf xg y)
  then obtain bb where bb: "bb \<in> set bs" "xg = body (bval bb)"
    by auto
  with 24 have "isProcExp (bval bb)"
    by (simp add: allT_def list_all_iff)
  with bb have "size_list size xg < size_list size bs"
    by (simp add: size_body_less)
  with 24 show ?case
    by simp
qed auto


section \<open>Entry points\<close>

text \<open>
  The reader \<^verbatim>\<open>p\<close> of \<^verbatim>\<open>shared/parser\<close> and the AST builders \<^verbatim>\<open>parseL5Exp\<close> and
  \<^verbatim>\<open>parseL5Program\<close> of \<^verbatim>\<open>L5-ast\<close> are not among the sources: the entry points take
  them as parameters, \<open>'s\<close> being the reader's tree of symbolic expressions. The
  spec calls the two entry points \<^verbatim>\<open>checkExpressionType\<close> and \<^verbatim>\<open>checkProgramType\<close>.
\<close>

definition L5typeof ::
  "(string \<Rightarrow> failure + 's) \<Rightarrow> ('s \<Rightarrow> failure + Exp) \<Rightarrow> string \<Rightarrow> failure + string" where
  "L5typeof p parseL5Exp concreteExp =
     bind (p concreteExp) (\<lambda>x.
       bind (parseL5Exp x) (\<lambda>e.
         bind (typeofExp e makeEmptyTEnv) unparseTExp))"

definition L5programTypeof ::
  "(string \<Rightarrow> failure + 's) \<Rightarrow> ('s \<Rightarrow> failure + Exp) \<Rightarrow> string \<Rightarrow> failure + string" where
  "L5programTypeof p parseL5Program concreteExp =
     bind (p concreteExp) (\<lambda>x.
       bind (parseL5Program x) (\<lambda>e.
         bind (typeofExp e makeEmptyTEnv) unparseTExp))"

section \<open>Basic facts\<close>

lemma bind_Inr [simp]: "bind (Inr v) f = f v"
  by (simp add: bind_def)

lemma bind_Inl [simp]: "bind (Inl e) f = Inl e"
  by (simp add: bind_def)

lemma isFailure_Inl [simp]: "isFailure (Inl e)"
  by (simp add: isFailure_def)

lemma isFailure_Inr [simp]: "\<not> isFailure (Inr v)"
  by (simp add: isFailure_def)

lemma isFailure_iff: "isFailure r \<longleftrightarrow> (\<forall>v. r \<noteq> Inr v)"
  by (cases r) auto

section \<open>Letrec\<close>

text \<open>
  Claim C8. A letrec expression with at least one binding whose value expression is
  not syntactically a procedure expression fails, with the failure that names the
  letrec expression, whatever the declared types of its bindings, its body and the
  environment are.
\<close>

theorem letrec_rejects_non_procedure:
  assumes "\<exists>b \<in> set bnds. \<not> isProcExp (bval b)"
  shows "typeofExp (LetrecExp bnds bdy) tenv = Inl (LetrecNonProcedure (LetrecExp bnds bdy))"
  using assms by (auto simp: allT_def list_all_iff Let_def)

theorem letrec_rejects_non_procedure_witness:
  "(\<exists>b \<in> set [Binding (VarDecl ''f'' NumTExp) (NumExp 1)]. \<not> isProcExp (bval b))
   \<and> typeofExp (LetrecExp [Binding (VarDecl ''f'' NumTExp) (NumExp 1)] [VarRef ''f'']) EmptyTEnv
       = Inl (LetrecNonProcedure
               (LetrecExp [Binding (VarDecl ''f'' NumTExp) (NumExp 1)] [VarRef ''f'']))"
  using letrec_rejects_non_procedure
          [of "[Binding (VarDecl ''f'' NumTExp) (NumExp 1)]" "[VarRef ''f'']" EmptyTEnv]
  by simp

section \<open>Standalone define\<close>

text \<open>
  Claim C7. A standalone define expression type-checks exactly when the computed
  type of its value expression equals the declared type; the result is then \<open>Void\<close>,
  which the expression entry point renders as \<open>void\<close>. When the value has no type or
  a type other than the declared one, the result is a failure and no type string.
\<close>

theorem define_standalone:
  "(typeofExp val tenv = Inr (texp vd) \<longrightarrow>
      typeofExp (DefineExp vd val) tenv = Inr VoidTExp)
   \<and> (typeofExp val tenv \<noteq> Inr (texp vd) \<longrightarrow>
      isFailure (typeofExp (DefineExp vd val) tenv))
   \<and> (p s = Inr x \<and> parseL5Exp x = Inr (DefineExp vd val)
        \<and> typeofExp val makeEmptyTEnv = Inr (texp vd) \<longrightarrow>
      L5typeof p parseL5Exp s = Inr ''void'')
   \<and> (p s = Inr x \<and> parseL5Exp x = Inr (DefineExp vd val)
        \<and> typeofExp val makeEmptyTEnv \<noteq> Inr (texp vd) \<longrightarrow>
      isFailure (L5typeof p parseL5Exp s))"
  by (cases "typeofExp val tenv"; cases "typeofExp val makeEmptyTEnv")
     (auto simp: checkEqualType_def Let_def L5typeof_def unparseTExp_def)

theorem define_standalone_witness:
  "typeofExp (NumExp 5) EmptyTEnv = Inr (texp (VarDecl ''x'' NumTExp))
   \<and> typeofExp (DefineExp (VarDecl ''x'' NumTExp) (NumExp 5)) EmptyTEnv = Inr VoidTExp
   \<and> typeofExp (BoolExp True) EmptyTEnv \<noteq> Inr (texp (VarDecl ''x'' NumTExp))
   \<and> isFailure (typeofExp (DefineExp (VarDecl ''x'' NumTExp) (BoolExp True)) EmptyTEnv)
   \<and> L5typeof Inr (\<lambda>x. if x = ''(define (x : number) 5)''
                          then Inr (DefineExp (VarDecl ''x'' NumTExp) (NumExp 5))
                          else Inr (DefineExp (VarDecl ''x'' NumTExp) (BoolExp True)))
        ''(define (x : number) 5)'' = Inr ''void''
   \<and> isFailure (L5typeof Inr (\<lambda>x. if x = ''(define (x : number) 5)''
                          then Inr (DefineExp (VarDecl ''x'' NumTExp) (NumExp 5))
                          else Inr (DefineExp (VarDecl ''x'' NumTExp) (BoolExp True)))
        ''(define (x : number) #t)'')"
  using define_standalone [of "NumExp 5" EmptyTEnv "VarDecl ''x'' NumTExp" Inr
          "''(define (x : number) 5)''" "''(define (x : number) 5)''"
          "\<lambda>x. if x = ''(define (x : number) 5)''
                          then Inr (DefineExp (VarDecl ''x'' NumTExp) (NumExp 5))
                          else Inr (DefineExp (VarDecl ''x'' NumTExp) (BoolExp True))"]
        define_standalone [of "BoolExp True" EmptyTEnv "VarDecl ''x'' NumTExp" Inr
          "''(define (x : number) #t)''" "''(define (x : number) #t)''"
          "\<lambda>x. if x = ''(define (x : number) 5)''
                          then Inr (DefineExp (VarDecl ''x'' NumTExp) (NumExp 5))
                          else Inr (DefineExp (VarDecl ''x'' NumTExp) (BoolExp True))"]
  by (simp add: typeofNum_def typeofBool_def)

section \<open>Quoted literals\<close>

text \<open>
  Claim C2, as stated, at the quoted number \<open>'5\<close>: the claim gives it the type \<open>Num\<close>,
  the checker gives it the type variable named \<open>literal\<close>.
\<close>

theorem quoted_plain_literal_counterexample:
  "typeofExp (LitExp (SNumber 5)) EmptyTEnv = Inr (TVar ''literal'')
   \<and> typeofExp (LitExp (SNumber 5)) EmptyTEnv \<noteq> Inr NumTExp"
  by simp

text \<open>
  Claim C2, amended. A quoted literal whose value is not a compound cell (a number,
  a boolean, a string, a symbol or the empty value) has the type variable named
  \<open>literal\<close>. A quoted compound cell is a \<open>Pair\<close> of the classifications of its two
  halves, and there a number, boolean or string is classified \<open>Num\<close>, \<open>Bool\<close> or \<open>Str\<close>,
  a symbol is the type variable \<open>literal\<close> and the empty value is the \<open>Empty\<close> marker.
\<close>

theorem quoted_literal_typing:
  "(\<not> isCompoundSExp v \<longrightarrow> typeofExp (LitExp v) tenv = Inr (TVar ''literal''))
   \<and> typeofExp (LitExp (CompoundSExp val1 val2)) tenv =
       bind (typeofSExpLiteral val1) (\<lambda>leftTE.
         bind (typeofSExpLiteral val2) (\<lambda>rightTE. Inr (PairTExp leftTE rightTE)))
   \<and> typeofSExpLiteral (SNumber n) = Inr NumTExp
   \<and> typeofSExpLiteral (SBoolean b) = Inr BoolTExp
   \<and> typeofSExpLiteral (SString s) = Inr StrTExp
   \<and> typeofSExpLiteral (SymbolSExp s) = Inr (TVar ''literal'')
   \<and> typeofSExpLiteral EmptySExp = Inr EmptyTupleTExp"
  by simp

theorem quoted_literal_typing_witness:
  "\<not> isCompoundSExp (SString ''a'')
   \<and> typeofExp (LitExp (SString ''a'')) EmptyTEnv = Inr (TVar ''literal'')
   \<and> typeofExp (LitExp (CompoundSExp (SString ''a'') EmptySExp)) EmptyTEnv
       = Inr (PairTExp StrTExp EmptyTupleTExp)"
  using quoted_literal_typing [of "SString ''a''" EmptyTEnv "SString ''a''" EmptySExp]
  by simp

lemma typeofSExpLiteral_classifySpec:
  "typeofSExpLiteral v = Inr (classifySpec v)"
  by (induction v) simp_all

text \<open>
  Claim C9. A quoted compound literal recursively classifies both halves: the
  source's classifier gives every literal value, however deeply its compound cells
  are nested, the type that the spec's classification gives it, so a quoted compound
  cell has the type \<open>Pair\<close> of the classifications of its two halves. Through the
  program entry point, whenever the reader and the AST builder turn the text into the
  program holding the single quoted literal (the spec takes \<open>'expr\<close> and the dotted
  pair \<open>(a . b)\<close> as sugar for the quoted-literal form), a quoted compound cell is
  rendered \<open>(Pair t1 t2)\<close> with the renderings of the two classifications, and a quoted
  number is rendered \<open>literal\<close> and not \<open>number\<close>. In particular \<open>'5\<close> is rendered
  \<open>literal\<close>, \<open>'(4 . 7)\<close> is rendered \<open>(Pair number number)\<close> and \<open>'(#t . 10)\<close> is rendered
  \<open>(Pair boolean number)\<close>.
\<close>

theorem quoted_literal_rendering:
  assumes "p s = Inr x"
  shows "typeofSExpLiteral v = Inr (classifySpec v)
       \<and> typeofExp (LitExp (CompoundSExp lv rv)) tenv
           = Inr (PairTExp (classifySpec lv) (classifySpec rv))
       \<and> (parseL5Program x = Inr (Program [LitExp (CompoundSExp lv rv)]) \<longrightarrow>
            L5programTypeof p parseL5Program s
              = Inr (''(Pair '' @ unparseTExpText (classifySpec lv) @ '' ''
                       @ unparseTExpText (classifySpec rv) @ '')''))
       \<and> (parseL5Program x = Inr (Program [LitExp (SNumber n)]) \<longrightarrow>
            L5programTypeof p parseL5Program s = Inr ''literal''
            \<and> L5programTypeof p parseL5Program s \<noteq> Inr ''number'')
       \<and> (parseL5Program x = Inr (Program [LitExp (SNumber 5)]) \<longrightarrow>
            L5programTypeof p parseL5Program s = Inr ''literal''
            \<and> L5programTypeof p parseL5Program s \<noteq> Inr ''number'')
       \<and> (parseL5Program x = Inr (Program [LitExp (CompoundSExp (SNumber 4) (SNumber 7))]) \<longrightarrow>
            L5programTypeof p parseL5Program s = Inr ''(Pair number number)'')
       \<and> (parseL5Program x = Inr (Program [LitExp (CompoundSExp (SBoolean True) (SNumber 10))]) \<longrightarrow>
            L5programTypeof p parseL5Program s = Inr ''(Pair boolean number)'')"
proof -
  have cls: "typeofSExpLiteral u = Inr (classifySpec u)" for u
    by (rule typeofSExpLiteral_classifySpec)
  have pair: "typeofExp (LitExp (CompoundSExp lv rv)) tenv
      = Inr (PairTExp (classifySpec lv) (classifySpec rv))" for tenv
    by (simp add: cls)
  have render: "L5programTypeof p parseL5Program s
      = Inr (''(Pair '' @ unparseTExpText (classifySpec lv) @ '' ''
               @ unparseTExpText (classifySpec rv) @ '')'')"
    if "parseL5Program x = Inr (Program [LitExp (CompoundSExp lv rv)])"
    using assms that by (simp add: L5programTypeof_def unparseTExp_def cls)
  have plain: "L5programTypeof p parseL5Program s = Inr ''literal''
      \<and> L5programTypeof p parseL5Program s \<noteq> Inr ''number''"
    if "parseL5Program x = Inr (Program [LitExp (SNumber m)])" for m
    using assms that by (simp add: L5programTypeof_def unparseTExp_def)
  have ex1: "L5programTypeof p parseL5Program s = Inr ''(Pair number number)''"
    if "parseL5Program x = Inr (Program [LitExp (CompoundSExp (SNumber 4) (SNumber 7))])"
    using assms that by (simp add: L5programTypeof_def unparseTExp_def)
  have ex2: "L5programTypeof p parseL5Program s = Inr ''(Pair boolean number)''"
    if "parseL5Program x = Inr (Program [LitExp (CompoundSExp (SBoolean True) (SNumber 10))])"
    using assms that by (simp add: L5programTypeof_def unparseTExp_def)
  show ?thesis
    using cls pair render plain ex1 ex2 by blast
qed

theorem quoted_literal_rendering_witness:
  "L5programTypeof Inr
      (\<lambda>x. if x = ''(L5 '5)'' then Inr (Program [LitExp (SNumber 5)])
            else if x = ''(L5 '(4 . 7))''
              then Inr (Program [LitExp (CompoundSExp (SNumber 4) (SNumber 7))])
            else Inr (Program [LitExp (CompoundSExp (SBoolean True) (SNumber 10))]))
      ''(L5 '5)'' = Inr ''literal''
   \<and> L5programTypeof Inr
      (\<lambda>x. if x = ''(L5 '5)'' then Inr (Program [LitExp (SNumber 5)])
            else if x = ''(L5 '(4 . 7))''
              then Inr (Program [LitExp (CompoundSExp (SNumber 4) (SNumber 7))])
            else Inr (Program [LitExp (CompoundSExp (SBoolean True) (SNumber 10))]))
      ''(L5 '(4 . 7))'' = Inr ''(Pair number number)''
   \<and> L5programTypeof Inr
      (\<lambda>x. if x = ''(L5 '5)'' then Inr (Program [LitExp (SNumber 5)])
            else if x = ''(L5 '(4 . 7))''
              then Inr (Program [LitExp (CompoundSExp (SNumber 4) (SNumber 7))])
            else Inr (Program [LitExp (CompoundSExp (SBoolean True) (SNumber 10))]))
      ''(L5 '(#t . 10))'' = Inr ''(Pair boolean number)''
   \<and> typeofSExpLiteral (CompoundSExp (SNumber 1) (CompoundSExp (SNumber 2) EmptySExp))
       = Inr (PairTExp NumTExp (PairTExp NumTExp EmptyTupleTExp))
   \<and> L5programTypeof Inr
      (\<lambda>x. Inr (Program [LitExp (CompoundSExp (SNumber 1) (CompoundSExp (SNumber 2) EmptySExp))]))
      ''(L5 '(1 2))'' = Inr ''(Pair number (Pair number Empty))''"
proof -
  let ?parse = "\<lambda>x. if x = ''(L5 '5)'' then Inr (Program [LitExp (SNumber 5)])
            else if x = ''(L5 '(4 . 7))''
              then Inr (Program [LitExp (CompoundSExp (SNumber 4) (SNumber 7))])
            else (Inr (Program [LitExp (CompoundSExp (SBoolean True) (SNumber 10))])
                    :: failure + Exp)"
  let ?list = "CompoundSExp (SNumber 1) (CompoundSExp (SNumber 2) EmptySExp)"
  let ?parse2 = "\<lambda>x :: string. (Inr (Program [LitExp ?list]) :: failure + Exp)"
  let ?rd = "Inr :: string \<Rightarrow> failure + string"
  have a: "L5programTypeof ?rd ?parse ''(L5 '5)'' = Inr ''literal''"
    using quoted_literal_rendering [where p = ?rd and s = "''(L5 '5)''" and x = "''(L5 '5)''"
              and parseL5Program = ?parse and n = 5]
    by simp
  have b: "L5programTypeof ?rd ?parse ''(L5 '(4 . 7))'' = Inr ''(Pair number number)''"
    using quoted_literal_rendering [where p = ?rd and s = "''(L5 '(4 . 7))''" and x = "''(L5 '(4 . 7))''"
              and parseL5Program = ?parse]
    by simp
  have c: "L5programTypeof ?rd ?parse ''(L5 '(#t . 10))'' = Inr ''(Pair boolean number)''"
    using quoted_literal_rendering [where p = ?rd and s = "''(L5 '(#t . 10))''" and x = "''(L5 '(#t . 10))''"
              and parseL5Program = ?parse]
    by simp
  note nested = quoted_literal_rendering [where p = ?rd and s = "''(L5 '(1 2))''" and x = "''(L5 '(1 2))''"
              and parseL5Program = ?parse2 and v = ?list and lv = "SNumber 1"
              and rv = "CompoundSExp (SNumber 2) EmptySExp"]
  have d: "typeofSExpLiteral ?list = Inr (PairTExp NumTExp (PairTExp NumTExp EmptyTupleTExp))"
    using nested by simp
  have e: "L5programTypeof ?rd ?parse2 ''(L5 '(1 2))'' = Inr ''(Pair number (Pair number Empty))''"
    using nested by simp
  show ?thesis
    using a b c d e by blast
qed

section \<open>Applications\<close>

lemma length_one_conv: "length xs = Suc 0 \<longleftrightarrow> (\<exists>x. xs = [x])"
  by (cases xs) auto

lemma length_two_conv: "length xs = 2 \<longleftrightarrow> (\<exists>x y. xs = [x, y])"
  by (cases xs; simp; case_tac list; simp)

lemma typeofApp_car:
  "typeofExp (AppExp (PrimOp ''car'') rnds) tenv =
     (if length rnds \<noteq> 1 then Inl (Failure ''cdr expects exactly 1 argument'')
      else bind (typeofExp (rnds ! 0) tenv) (\<lambda>pair.
             case pair of PairTExp a b \<Rightarrow> Inr a | _ \<Rightarrow> Inl (Failure ''cdr expected a pair'')))"
  by simp

lemma typeofApp_cdr:
  "typeofExp (AppExp (PrimOp ''cdr'') rnds) tenv =
     (if length rnds \<noteq> 1 then Inl (Failure ''cdr expects exactly 1 argument'')
      else bind (typeofExp (rnds ! 0) tenv) (\<lambda>pair.
             case pair of PairTExp a b \<Rightarrow> Inr b | _ \<Rightarrow> Inl (Failure ''cdr expected a pair'')))"
  by simp

lemma typeofApp_cons:
  "typeofExp (AppExp (PrimOp ''cons'') rnds) tenv =
     (if length rnds \<noteq> 2 then Inl (Failure ''cons expects exactly 2 arguments'')
      else bind (typeofExp (rnds ! 0) tenv) (\<lambda>t1.
             bind (typeofExp (rnds ! 1) tenv) (\<lambda>t2. Inr (PairTExp t1 t2))))"
  by simp

lemma pair_first_eq_Inr:
  "(case pair of PairTExp a b \<Rightarrow> Inr a | _ \<Rightarrow> Inl e) = Inr t \<longleftrightarrow> (\<exists>b. pair = PairTExp t b)"
  by (cases pair) auto

lemma pair_second_eq_Inr:
  "(case pair of PairTExp a b \<Rightarrow> Inr b | _ \<Rightarrow> Inl e) = Inr t \<longleftrightarrow> (\<exists>a. pair = PairTExp a t)"
  by (cases pair) auto

lemma bind_eq_Inr: "bind r f = Inr t \<longleftrightarrow> (\<exists>v. r = Inr v \<and> f v = Inr t)"
  by (cases r) auto

text \<open>
  Claim C6. An application of \<open>car\<close> (of \<open>cdr\<close>) has a type exactly when it has one
  argument and that argument's computed type is a \<open>Pair\<close>; the type is then the pair's
  first (second) component, and in every other case the application fails. An
  application of \<open>cons\<close> has a type exactly when it has two arguments, each with a
  computed type; the type is the \<open>Pair\<close> of the two, whatever they are.
\<close>

theorem car_cdr_cons_application:
  "(typeofExp (AppExp (PrimOp ''car'') rnds) tenv = Inr t \<longleftrightarrow>
      (\<exists>x b. rnds = [x] \<and> typeofExp x tenv = Inr (PairTExp t b)))
   \<and> (typeofExp (AppExp (PrimOp ''cdr'') rnds) tenv = Inr t \<longleftrightarrow>
      (\<exists>x a. rnds = [x] \<and> typeofExp x tenv = Inr (PairTExp a t)))
   \<and> (typeofExp (AppExp (PrimOp ''cons'') rnds) tenv = Inr t \<longleftrightarrow>
      (\<exists>x y t1 t2. rnds = [x, y] \<and> typeofExp x tenv = Inr t1 \<and> typeofExp y tenv = Inr t2
          \<and> t = PairTExp t1 t2))"
proof (intro conjI)
  show "typeofExp (AppExp (PrimOp ''car'') rnds) tenv = Inr t \<longleftrightarrow>
      (\<exists>x b. rnds = [x] \<and> typeofExp x tenv = Inr (PairTExp t b))"
    unfolding typeofApp_car
    by (auto simp: length_one_conv bind_eq_Inr pair_first_eq_Inr)
  show "typeofExp (AppExp (PrimOp ''cdr'') rnds) tenv = Inr t \<longleftrightarrow>
      (\<exists>x a. rnds = [x] \<and> typeofExp x tenv = Inr (PairTExp a t))"
    unfolding typeofApp_cdr
    by (auto simp: length_one_conv bind_eq_Inr pair_second_eq_Inr)
  show "typeofExp (AppExp (PrimOp ''cons'') rnds) tenv = Inr t \<longleftrightarrow>
      (\<exists>x y t1 t2. rnds = [x, y] \<and> typeofExp x tenv = Inr t1 \<and> typeofExp y tenv = Inr t2
          \<and> t = PairTExp t1 t2)"
    unfolding typeofApp_cons
    by (auto simp: length_two_conv bind_eq_Inr)
qed

theorem car_cdr_cons_application_witness:
  "typeofExp (AppExp (PrimOp ''car'')
       [AppExp (PrimOp ''cons'') [NumExp 5, BoolExp True]]) EmptyTEnv = Inr NumTExp
   \<and> typeofExp (AppExp (PrimOp ''cdr'')
       [AppExp (PrimOp ''cons'') [NumExp 5, BoolExp True]]) EmptyTEnv = Inr BoolTExp
   \<and> typeofExp (AppExp (PrimOp ''cons'') [NumExp 5, BoolExp True]) EmptyTEnv
       = Inr (PairTExp NumTExp BoolTExp)
   \<and> isFailure (typeofExp (AppExp (PrimOp ''car'') [NumExp 5]) EmptyTEnv)
   \<and> isFailure (typeofExp (AppExp (PrimOp ''cons'') [NumExp 5]) EmptyTEnv)"
proof -
  have cons: "typeofExp (AppExp (PrimOp ''cons'') [NumExp 5, BoolExp True]) EmptyTEnv
      = Inr (PairTExp NumTExp BoolTExp)"
    using car_cdr_cons_application
            [of "[NumExp 5, BoolExp True]" EmptyTEnv "PairTExp NumTExp BoolTExp"]
    by (simp add: typeofNum_def typeofBool_def)
  have car: "typeofExp (AppExp (PrimOp ''car'')
       [AppExp (PrimOp ''cons'') [NumExp 5, BoolExp True]]) EmptyTEnv = Inr NumTExp"
    using car_cdr_cons_application
            [of "[AppExp (PrimOp ''cons'') [NumExp 5, BoolExp True]]" EmptyTEnv NumTExp] cons
    by simp
  have cdr: "typeofExp (AppExp (PrimOp ''cdr'')
       [AppExp (PrimOp ''cons'') [NumExp 5, BoolExp True]]) EmptyTEnv = Inr BoolTExp"
    using car_cdr_cons_application
            [of "[AppExp (PrimOp ''cons'') [NumExp 5, BoolExp True]]" EmptyTEnv BoolTExp] cons
    by simp
  have "\<forall>t. typeofExp (AppExp (PrimOp ''car'') [NumExp 5]) EmptyTEnv \<noteq> Inr t"
    using car_cdr_cons_application [of "[NumExp 5]" EmptyTEnv]
    by (simp add: typeofNum_def)
  moreover have "\<forall>t. typeofExp (AppExp (PrimOp ''cons'') [NumExp 5]) EmptyTEnv \<noteq> Inr t"
    using car_cdr_cons_application [of "[NumExp 5]" EmptyTEnv]
    by simp
  ultimately show ?thesis
    using cons car cdr by (simp add: isFailure_iff)
qed

lemma zipWithResult_ok_iff:
  "length xs = length ys \<Longrightarrow>
     (\<exists>rs. zipWithResult f xs ys = Inr rs) \<longleftrightarrow> (\<forall>i < length xs. \<exists>r. f (xs ! i) (ys ! i) = Inr r)"
proof (induction xs ys rule: list_induct2)
  case Nil
  then show ?case by simp
next
  case (Cons x xs y ys)
  show ?case
  proof (cases "f x y")
    case (Inl e)
    then show ?thesis by auto
  next
    case (Inr r)
    then show ?thesis
      using Cons.IH by (auto simp: bind_eq_Inr less_Suc_eq_0_disj)
  qed
qed

lemma typeofApp_generic:
  assumes "\<not> (isPrimOp rtr \<and> op rtr \<in> {''car'', ''cdr'', ''cons''})"
  shows "typeofExp (AppExp rtr rnds) tenv =
     bind (typeofExp rtr tenv) (\<lambda>ratorTE.
       case ratorTE of
         ProcTExp paramTEs retTE \<Rightarrow>
           if length rnds \<noteq> length paramTEs then Inl (WrongParameterNumbers (AppExp rtr rnds))
           else (let constraints =
                       zipWithResult (\<lambda>rand trand.
                           bind (typeofExp rand tenv) (\<lambda>typeOfRand.
                             checkEqualType typeOfRand trand (AppExp rtr rnds)))
                         rnds paramTEs
                 in bind constraints (\<lambda>_. Inr retTE))
       | _ \<Rightarrow> Inl (ApplicationOfNonProcedure ratorTE (AppExp rtr rnds)))"
  using assms by auto

lemma rand_check_ok:
  "bind (typeofExp rand tenv) (\<lambda>typeOfRand. checkEqualType typeOfRand trand app) = Inr u
     \<longleftrightarrow> typeofExp rand tenv = Inr trand"
  by (cases "typeofExp rand tenv") (auto simp: checkEqualType_def)

text \<open>
  Claim C5. For an application whose operator is not one of the primitives \<open>car\<close>,
  \<open>cdr\<close>, \<open>cons\<close>: it has type \<open>t\<close> exactly when the operator's computed type is a
  procedure type with return type \<open>t\<close>, the number of arguments equals the number of
  declared parameters, and each argument's computed type equals the parameter type at
  its position. An operator of a non-procedure type, a wrong number of arguments and
  an argument of another type each yield a failure.
\<close>

theorem generic_application:
  assumes "\<not> (isPrimOp rtr \<and> op rtr \<in> {''car'', ''cdr'', ''cons''})"
  shows "(typeofExp (AppExp rtr rnds) tenv = Inr t \<longleftrightarrow>
            (\<exists>ps. typeofExp rtr tenv = Inr (ProcTExp ps t) \<and> length rnds = length ps
               \<and> (\<forall>i < length rnds. typeofExp (rnds ! i) tenv = Inr (ps ! i))))
       \<and> (\<forall>ratorTE. typeofExp rtr tenv = Inr ratorTE \<and> \<not> isProcTExp ratorTE \<longrightarrow>
            typeofExp (AppExp rtr rnds) tenv
              = Inl (ApplicationOfNonProcedure ratorTE (AppExp rtr rnds)))
       \<and> (\<forall>ps r. typeofExp rtr tenv = Inr (ProcTExp ps r) \<and> length rnds \<noteq> length ps \<longrightarrow>
            typeofExp (AppExp rtr rnds) tenv = Inl (WrongParameterNumbers (AppExp rtr rnds)))
       \<and> (\<forall>ps r i. typeofExp rtr tenv = Inr (ProcTExp ps r) \<and> length rnds = length ps
              \<and> i < length rnds \<and> typeofExp (rnds ! i) tenv \<noteq> Inr (ps ! i) \<longrightarrow>
            isFailure (typeofExp (AppExp rtr rnds) tenv))"
proof -
  let ?app = "AppExp rtr rnds"
  let ?f = "\<lambda>rand trand. bind (typeofExp rand tenv) (\<lambda>typeOfRand.
              checkEqualType typeOfRand trand ?app)"
  have zip: "(\<exists>rs. zipWithResult ?f rnds ps = Inr rs)
              \<longleftrightarrow> (\<forall>i < length rnds. typeofExp (rnds ! i) tenv = Inr (ps ! i))"
    if "length rnds = length ps" for ps
    using zipWithResult_ok_iff [OF that, of ?f] by (simp add: rand_check_ok)
  have main: "typeofExp ?app tenv = Inr t \<longleftrightarrow>
            (\<exists>ps. typeofExp rtr tenv = Inr (ProcTExp ps t) \<and> length rnds = length ps
               \<and> (\<forall>i < length rnds. typeofExp (rnds ! i) tenv = Inr (ps ! i)))" for t
  proof (cases "typeofExp rtr tenv")
    case (Inl e)
    then show ?thesis
      unfolding typeofApp_generic [OF assms] by simp
  next
    case (Inr ratorTE)
    show ?thesis
    proof (cases "\<exists>ps r. ratorTE = ProcTExp ps r \<and> length rnds = length ps")
      case True
      then obtain ps r where "ratorTE = ProcTExp ps r" "length rnds = length ps"
        by blast
      with Inr zip [of ps] show ?thesis
        unfolding typeofApp_generic [OF assms] by (auto simp: bind_eq_Inr Let_def)
    next
      case False
      with Inr show ?thesis
        unfolding typeofApp_generic [OF assms] by (cases ratorTE) (auto simp: Let_def)
    qed
  qed
  have nonproc: "typeofExp ?app tenv = Inl (ApplicationOfNonProcedure ratorTE ?app)"
    if "typeofExp rtr tenv = Inr ratorTE" "\<not> isProcTExp ratorTE" for ratorTE
    unfolding typeofApp_generic [OF assms] using that by (cases ratorTE) auto
  have arity: "typeofExp ?app tenv = Inl (WrongParameterNumbers ?app)"
    if "typeofExp rtr tenv = Inr (ProcTExp ps r)" "length rnds \<noteq> length ps" for ps r
    unfolding typeofApp_generic [OF assms] using that by (auto simp: Let_def)
  have mismatch: "isFailure (typeofExp ?app tenv)"
    if "typeofExp rtr tenv = Inr (ProcTExp ps r)" "length rnds = length ps"
       "i < length rnds" "typeofExp (rnds ! i) tenv \<noteq> Inr (ps ! i)" for ps r i
    using main that by (auto simp: isFailure_iff)
  show ?thesis
    using main nonproc arity mismatch by blast
qed

theorem generic_application_witness:
  "\<not> (isPrimOp (PrimOp ''+'') \<and> op (PrimOp ''+'') \<in> {''car'', ''cdr'', ''cons''})
   \<and> typeofExp (AppExp (PrimOp ''+'') [NumExp 1, NumExp 2]) EmptyTEnv = Inr NumTExp
   \<and> typeofExp (AppExp (PrimOp ''+'') [NumExp 1]) EmptyTEnv
       = Inl (WrongParameterNumbers (AppExp (PrimOp ''+'') [NumExp 1]))
   \<and> isFailure (typeofExp (AppExp (PrimOp ''+'') [NumExp 1, BoolExp True]) EmptyTEnv)
   \<and> \<not> (isPrimOp (NumExp 7) \<and> op (NumExp 7) \<in> {''car'', ''cdr'', ''cons''})
   \<and> typeofExp (AppExp (NumExp 7) []) EmptyTEnv
       = Inl (ApplicationOfNonProcedure NumTExp (AppExp (NumExp 7) []))"
proof -
  let ?plus = "PrimOp ''+''"
  have plus: "typeofExp ?plus EmptyTEnv = Inr (ProcTExp [NumTExp, NumTExp] NumTExp)"
    by (simp add: numOpTExp_def parseTE_def)
  have h: "\<not> (isPrimOp ?plus \<and> op ?plus \<in> {''car'', ''cdr'', ''cons''})"
    by simp
  have h7: "\<not> (isPrimOp (NumExp 7) \<and> op (NumExp 7) \<in> {''car'', ''cdr'', ''cons''})"
    by simp
  have args: "\<forall>i < length [NumExp 1, NumExp 2].
      typeofExp ([NumExp 1, NumExp 2] ! i) EmptyTEnv = Inr ([NumTExp, NumTExp] ! i)"
    by (simp add: typeofNum_def less_Suc_eq)
  have ok: "typeofExp (AppExp ?plus [NumExp 1, NumExp 2]) EmptyTEnv = Inr NumTExp"
  proof -
    have "\<exists>ps. typeofExp ?plus EmptyTEnv = Inr (ProcTExp ps NumTExp)
        \<and> length [NumExp 1, NumExp 2] = length ps
        \<and> (\<forall>i < length [NumExp 1, NumExp 2].
              typeofExp ([NumExp 1, NumExp 2] ! i) EmptyTEnv = Inr (ps ! i))"
      using plus args by (intro exI [of _ "[NumTExp, NumTExp]"]) simp
    then show ?thesis
      using generic_application [OF h, of "[NumExp 1, NumExp 2]" EmptyTEnv NumTExp] by blast
  qed
  have arity: "typeofExp (AppExp ?plus [NumExp 1]) EmptyTEnv
       = Inl (WrongParameterNumbers (AppExp ?plus [NumExp 1]))"
  proof -
    have "length [NumExp 1] \<noteq> length [NumTExp, NumTExp]"
      by simp
    with plus show ?thesis
      using generic_application [OF h, of "[NumExp 1]" EmptyTEnv NumTExp] by blast
  qed
  have mismatch: "isFailure (typeofExp (AppExp ?plus [NumExp 1, BoolExp True]) EmptyTEnv)"
  proof -
    have "length [NumExp 1, BoolExp True] = length [NumTExp, NumTExp]"
      and "1 < length [NumExp 1, BoolExp True]"
      and "typeofExp ([NumExp 1, BoolExp True] ! 1) EmptyTEnv \<noteq> Inr ([NumTExp, NumTExp] ! 1)"
      by (simp_all add: typeofBool_def)
    with plus show ?thesis
      using generic_application [OF h, of "[NumExp 1, BoolExp True]" EmptyTEnv NumTExp] by blast
  qed
  have nonproc: "typeofExp (AppExp (NumExp 7) []) EmptyTEnv
       = Inl (ApplicationOfNonProcedure NumTExp (AppExp (NumExp 7) []))"
  proof -
    have "typeofExp (NumExp 7) EmptyTEnv = Inr NumTExp" and "\<not> isProcTExp NumTExp"
      by (simp_all add: typeofNum_def)
    then show ?thesis
      using generic_application [OF h7, of "[]" EmptyTEnv NumTExp] by blast
  qed
  show ?thesis
    using h h7 ok arity mismatch nonproc by blast
qed

section \<open>Merging environments\<close>

lemma indexOf_notin: "v \<notin> set vs \<Longrightarrow> indexOf vs v = -1"
  by (induction vs) auto

lemma indexOf_in:
  "v \<in> set vs \<Longrightarrow> 0 \<le> indexOf vs v \<and> indexOf vs v < int (length vs) \<and> vs ! nat (indexOf vs v) = v"
  by (induction vs) (auto simp: Let_def nat_add_distrib)

lemma indexOf_eq_minus_one: "indexOf vs v = -1 \<longleftrightarrow> v \<notin> set vs"
  using indexOf_in [of v vs] indexOf_notin [of v vs] by auto

lemma indexOf_nth_distinct:
  "distinct vs \<Longrightarrow> i < length vs \<Longrightarrow> indexOf vs (vs ! i) = int i"
  by (induction vs arbitrary: i) (auto simp: Let_def nth_Cons indexOf_eq_minus_one split: nat.splits)

lemma applyTEnv_Extend:
  "applyTEnv (ExtendTEnv vs ts e) v =
     (if v \<in> set vs then readAt ts (indexOf vs v) else applyTEnv e v)"
  by (simp add: indexOf_eq_minus_one)

lemma readAt_in_range: "length vs \<le> length ts \<Longrightarrow> v \<in> set vs \<Longrightarrow>
   readAt ts (indexOf vs v) = Inr (ts ! nat (indexOf vs v))"
  using indexOf_in [of v vs] by (simp add: readAt_def)

lemma ex_less_Suc_shift: "(\<exists>k < Suc n. Q k) \<longleftrightarrow> Q 0 \<or> (\<exists>k < n. Q (Suc k))"
  by (auto simp: less_Suc_eq_0_disj)

lemma zip_filter_map_self:
  "zip (filter P xs) (map f (filter P xs)) = filter (\<lambda>(v, t). P v) (zip xs (map f xs))"
  by (induction xs) auto

lemma someIndexed_selfDefined:
  "i + length vs \<le> length ts \<Longrightarrow>
   someIndexed (\<lambda>variable index.
       bind (readAt ts index) (\<lambda>t. Inr (isContainedTvar variable t))) vs (int i)
     = Inr (\<exists>k < length vs. isContainedTvar (vs ! k) (ts ! (i + k)))"
proof (induction vs arbitrary: i)
  case Nil
  then show ?case by simp
next
  case (Cons v vs)
  let ?f = "\<lambda>variable index. bind (readAt ts index) (\<lambda>t. Inr (isContainedTvar variable t))"
  have here: "?f v (int i) = Inr (isContainedTvar v (ts ! i))"
    using Cons.prems by (simp add: readAt_def)
  have rest: "someIndexed ?f vs (int i + 1)
      = Inr (\<exists>k < length vs. isContainedTvar (vs ! k) (ts ! (Suc i + k)))"
  proof -
    have "int i + 1 = int (Suc i)"
      by simp
    then show ?thesis
      using Cons.prems Cons.IH [of "Suc i"] by (simp only: add_Suc_right) simp
  qed
  have "someIndexed ?f (v # vs) (int i)
      = Inr (isContainedTvar v (ts ! i)
             \<or> (\<exists>k < length vs. isContainedTvar (vs ! k) (ts ! (Suc i + k))))"
    unfolding someIndexed.simps here rest by simp
  then show ?case
    using ex_less_Suc_shift [of "length vs" "\<lambda>k. isContainedTvar ((v # vs) ! k) (ts ! (i + k))"]
    by simp
qed

lemma mapResult_readAt:
  "length vs \<le> length ts \<Longrightarrow> set ds \<subseteq> set vs \<Longrightarrow>
   mapResult (\<lambda>v. readAt ts (indexOf vs v)) ds = Inr (map (\<lambda>v. ts ! nat (indexOf vs v)) ds)"
  by (induction ds) (auto simp: readAt_in_range)

lemma makeNewEnv_frame:
  assumes "length vs = length ts"
  shows "makeNewEnv a (ExtendTEnv vs ts e) =
     (if \<exists>k < length vs. isContainedTvar (vs ! k) (ts ! k)
      then Inl (Failure ''Variable is defined recursivly'')
      else Inr (ExtendTEnv (filter (\<lambda>v. isFailure (applyTEnv a v)) vs)
                  (map (\<lambda>v. ts ! nat (indexOf vs v)) (filter (\<lambda>v. isFailure (applyTEnv a v)) vs)) a))"
proof -
  have "someIndexed (\<lambda>variable index.
       bind (readAt ts index) (\<lambda>t. Inr (isContainedTvar variable t))) vs 0
     = Inr (\<exists>k < length vs. isContainedTvar (vs ! k) (ts ! k))"
    using someIndexed_selfDefined [of 0 vs ts] assms by simp
  moreover have "mapResult (\<lambda>v. readAt ts (indexOf vs v)) (filter (\<lambda>v. isFailure (applyTEnv a v)) vs)
     = Inr (map (\<lambda>v. ts ! nat (indexOf vs v)) (filter (\<lambda>v. isFailure (applyTEnv a v)) vs))"
    using assms by (intro mapResult_readAt) auto
  ultimately show ?thesis
    by (simp add: Let_def)
qed

text \<open>
  Claim C3. \<open>combineEnvs a b\<close> returns the other argument unchanged when either one
  is the terminal environment. Otherwise, \<open>b\<close> being a frame of names \<open>vs\<close> and types
  \<open>ts\<close> of equal length (the frame invariant of the data model): it fails when some
  name bound in the frame is paired with a type expression that contains that name as
  a type variable; and when there is none, it returns a new frame chained onto \<open>a\<close>
  whose names are exactly the names of \<open>b\<close>'s frame that are not resolvable in \<open>a\<close>,
  each bound to the type \<open>b\<close> resolves it to. Looking a name up in the result gives
  \<open>a\<close>'s type whenever \<open>a\<close> resolves the name, so \<open>a\<close>'s bindings win for re-declared
  names; and when the names of \<open>b\<close>'s frame are distinct, the bindings of the new frame
  are exactly the filtered bindings of \<open>b\<close>'s frame, in order. The bindings of \<open>b\<close> are
  those of its own frame: the function does not read the environment that encloses
  \<open>b\<close>.
\<close>

theorem combineEnvs_policy:
  "combineEnvs EmptyTEnv b = Inr b
   \<and> combineEnvs a EmptyTEnv = Inr a
   \<and> (a \<noteq> EmptyTEnv \<and> b = ExtendTEnv vs ts e \<and> length vs = length ts
        \<and> (\<exists>k < length vs. isContainedTvar (vs ! k) (ts ! k)) \<longrightarrow>
        combineEnvs a b = Inl (Failure ''Variable is defined recursivly''))
   \<and> (a \<noteq> EmptyTEnv \<and> b = ExtendTEnv vs ts e \<and> length vs = length ts
        \<and> \<not> (\<exists>k < length vs. isContainedTvar (vs ! k) (ts ! k)) \<longrightarrow>
        (\<exists>ds dts. combineEnvs a b = Inr (ExtendTEnv ds dts a)
                \<and> ds = filter (\<lambda>v. isFailure (applyTEnv a v)) vs
                \<and> length dts = length ds
                \<and> (\<forall>k < length ds. applyTEnv b (ds ! k) = Inr (dts ! k))
                \<and> (\<forall>v. applyTEnv (ExtendTEnv ds dts a) v =
                       (if v \<in> set vs \<and> isFailure (applyTEnv a v) then applyTEnv b v
                        else applyTEnv a v))
                \<and> (distinct vs \<longrightarrow>
                     zip ds dts = filter (\<lambda>(v, t). isFailure (applyTEnv a v)) (zip vs ts))))"
proof (intro conjI impI)
  show "combineEnvs EmptyTEnv b = Inr b"
    by (simp add: combineEnvs_def)
  show "combineEnvs a EmptyTEnv = Inr a"
    by (cases a) (simp_all add: combineEnvs_def)
next
  assume h: "a \<noteq> EmptyTEnv \<and> b = ExtendTEnv vs ts e \<and> length vs = length ts
        \<and> (\<exists>k < length vs. isContainedTvar (vs ! k) (ts ! k))"
  then have "combineEnvs a b = makeNewEnv a (ExtendTEnv vs ts e)"
    by (cases a) (simp_all add: combineEnvs_def)
  moreover from h have len: "length vs = length ts"
    and self: "\<exists>k < length vs. isContainedTvar (vs ! k) (ts ! k)"
    by blast+
  have "makeNewEnv a (ExtendTEnv vs ts e) = Inl (Failure ''Variable is defined recursivly'')"
    by (simp only: makeNewEnv_frame [OF len] self if_True)
  ultimately show "combineEnvs a b = Inl (Failure ''Variable is defined recursivly'')"
    by simp
next
  assume h: "a \<noteq> EmptyTEnv \<and> b = ExtendTEnv vs ts e \<and> length vs = length ts
        \<and> \<not> (\<exists>k < length vs. isContainedTvar (vs ! k) (ts ! k))"
  let ?P = "\<lambda>v. isFailure (applyTEnv a v)"
  let ?ds = "filter ?P vs"
  let ?f = "\<lambda>v. ts ! nat (indexOf vs v)"
  have comb: "combineEnvs a b = makeNewEnv a (ExtendTEnv vs ts e)"
    using h by (cases a) (simp_all add: combineEnvs_def)
  from h have len: "length vs = length ts"
    and no_self: "\<not> (\<exists>k < length vs. isContainedTvar (vs ! k) (ts ! k))"
    by blast+
  have res: "combineEnvs a b = Inr (ExtendTEnv ?ds (map ?f ?ds) a)"
    by (simp only: comb makeNewEnv_frame [OF len] no_self if_False)
  have look: "applyTEnv b (?ds ! k) = Inr (map ?f ?ds ! k)" if "k < length ?ds" for k
  proof -
    have "?ds ! k \<in> set vs"
      using that nth_mem [OF that] by auto
    then show ?thesis
      using h that by (simp add: applyTEnv_Extend readAt_in_range del: applyTEnv.simps)
  qed
  have pairs: "zip ?ds (map ?f ?ds) = filter (\<lambda>(v, t). ?P v) (zip vs ts)" if "distinct vs"
  proof -
    have "map ?f vs = ts"
      using h that by (intro nth_equalityI) (simp_all add: indexOf_nth_distinct)
    then show ?thesis
      using zip_filter_map_self [of ?P vs ?f] by simp
  qed
  have wins: "applyTEnv (ExtendTEnv ?ds (map ?f ?ds) a) v =
      (if v \<in> set vs \<and> ?P v then applyTEnv b v else applyTEnv a v)" for v
  proof (cases "v \<in> set vs \<and> ?P v")
    case True
    then have "v \<in> set ?ds"
      by simp
    then have "applyTEnv (ExtendTEnv ?ds (map ?f ?ds) a) v = Inr (map ?f ?ds ! nat (indexOf ?ds v))"
      unfolding applyTEnv_Extend by (simp add: readAt_in_range)
    also have "map ?f ?ds ! nat (indexOf ?ds v) = ?f v"
      using indexOf_in [OF \<open>v \<in> set ?ds\<close>] by (simp add: nat_less_iff)
    also have "Inr (?f v) = applyTEnv b v"
      using h True by (simp add: applyTEnv_Extend readAt_in_range del: applyTEnv.simps)
    finally show ?thesis
      using True by simp
  next
    case False
    then have "v \<notin> set ?ds"
      by auto
    then have "applyTEnv (ExtendTEnv ?ds (map ?f ?ds) a) v = applyTEnv a v"
      by (simp only: applyTEnv_Extend if_False)
    with False show ?thesis
      by (simp only: if_False)
  qed
  show "\<exists>ds dts. combineEnvs a b = Inr (ExtendTEnv ds dts a)
                \<and> ds = filter (\<lambda>v. isFailure (applyTEnv a v)) vs
                \<and> length dts = length ds
                \<and> (\<forall>k < length ds. applyTEnv b (ds ! k) = Inr (dts ! k))
                \<and> (\<forall>v. applyTEnv (ExtendTEnv ds dts a) v =
                       (if v \<in> set vs \<and> isFailure (applyTEnv a v) then applyTEnv b v
                        else applyTEnv a v))
                \<and> (distinct vs \<longrightarrow>
                     zip ds dts = filter (\<lambda>(v, t). isFailure (applyTEnv a v)) (zip vs ts))"
    using res look pairs wins by (intro exI [of _ ?ds] exI [of _ "map ?f ?ds"]) simp
qed

theorem combineEnvs_policy_witness:
  "ExtendTEnv [''x''] [NumTExp] EmptyTEnv \<noteq> EmptyTEnv
   \<and> length [''x'', ''y''] = length [BoolTExp, StrTExp]
   \<and> \<not> (\<exists>k < length [''x'', ''y'']. isContainedTvar ([''x'', ''y''] ! k) ([BoolTExp, StrTExp] ! k))
   \<and> combineEnvs (ExtendTEnv [''x''] [NumTExp] EmptyTEnv)
        (ExtendTEnv [''x'', ''y''] [BoolTExp, StrTExp] EmptyTEnv)
       = Inr (ExtendTEnv [''y''] [StrTExp] (ExtendTEnv [''x''] [NumTExp] EmptyTEnv))
   \<and> (\<exists>k < length [''T'']. isContainedTvar ([''T''] ! k) ([TVar ''T''] ! k))
   \<and> combineEnvs (ExtendTEnv [''x''] [NumTExp] EmptyTEnv) (ExtendTEnv [''T''] [TVar ''T''] EmptyTEnv)
       = Inl (Failure ''Variable is defined recursivly'')"
proof -
  let ?a = "ExtendTEnv [''x''] [NumTExp] EmptyTEnv"
  have ne: "?a \<noteq> EmptyTEnv"
    by simp
  have no_self: "\<not> (\<exists>k < length [''x'', ''y''].
      isContainedTvar ([''x'', ''y''] ! k) ([BoolTExp, StrTExp] ! k))"
  proof -
    have "\<not> isContainedTvar ([''x'', ''y''] ! k) ([BoolTExp, StrTExp] ! k)"
      if "k < length [''x'', ''y'']" for k
    proof -
      from that have "k = 0 \<or> k = 1"
        by auto
      then show ?thesis
        by auto
    qed
    then show ?thesis
      by blast
  qed
  have self: "\<exists>k < length [''T'']. isContainedTvar ([''T''] ! k) ([TVar ''T''] ! k)"
    by simp
  have flt: "filter (\<lambda>v. isFailure (applyTEnv ?a v)) [''x'', ''y''] = [''y'']"
    by (simp add: readAt_def)
  have len: "length [''x'', ''y''] = length [BoolTExp, StrTExp]"
    by simp
  from combineEnvs_policy [of "ExtendTEnv [''x'', ''y''] [BoolTExp, StrTExp] EmptyTEnv" ?a
          "[''x'', ''y'']" "[BoolTExp, StrTExp]" EmptyTEnv] ne no_self len
  obtain ds dts where
    res: "combineEnvs ?a (ExtendTEnv [''x'', ''y''] [BoolTExp, StrTExp] EmptyTEnv)
            = Inr (ExtendTEnv ds dts ?a)"
    and ds: "ds = filter (\<lambda>v. isFailure (applyTEnv ?a v)) [''x'', ''y'']"
    and dlen: "length dts = length ds"
    and look: "\<forall>k < length ds.
        applyTEnv (ExtendTEnv [''x'', ''y''] [BoolTExp, StrTExp] EmptyTEnv) (ds ! k) = Inr (dts ! k)"
    by blast
  from ds flt have ds': "ds = [''y'']"
    by simp
  with dlen obtain t where dts: "dts = [t]"
    by (auto simp: length_one_conv)
  with look ds' have "t = StrTExp"
    by (simp add: readAt_def)
  with res ds' dts have ok: "combineEnvs ?a (ExtendTEnv [''x'', ''y''] [BoolTExp, StrTExp] EmptyTEnv)
       = Inr (ExtendTEnv [''y''] [StrTExp] ?a)"
    by simp
  have len1: "length [''T''] = length [TVar ''T'']"
    by simp
  have bad: "combineEnvs ?a (ExtendTEnv [''T''] [TVar ''T''] EmptyTEnv)
       = Inl (Failure ''Variable is defined recursivly'')"
    using combineEnvs_policy [of "ExtendTEnv [''T''] [TVar ''T''] EmptyTEnv" ?a
          "[''T'']" "[TVar ''T'']" EmptyTEnv] ne self len1
    by blast
  show ?thesis
    using ne no_self self ok bad len by blast
qed

section \<open>Program sequences\<close>

lemma typeOfSequence_define:
  "typeOfSequence (DefineExp vd val # rest) env =
     bind (bind (typeofExp val env) (\<lambda>valTE. checkEqualType (texp vd) valTE (DefineExp vd val)))
       (\<lambda>_. bind (combineEnvs env (ExtendTEnv [var vd] [texp vd] env))
          (\<lambda>env'. typeOfSequence rest env'))"
  by (simp add: Let_def)

lemma typeOfSequence_other:
  "\<not> isDefineExp e \<Longrightarrow> typeOfSequence (e # rest) env =
     (if rest = [] then typeofExp e env
      else bind (typeofExp e env) (\<lambda>_. typeOfSequence rest env))"
  by simp

lemma typeOfSequence_last_define:
  "seq \<noteq> [] \<Longrightarrow> isDefineExp (last seq) \<Longrightarrow> isFailure (typeOfSequence seq env)"
proof (induction seq arbitrary: env)
  case Nil
  then show ?case by simp
next
  case (Cons f rest)
  show ?case
  proof (cases "isDefineExp f")
    case True
    then obtain vd val where f: "f = DefineExp vd val"
      by (cases f) auto
    show ?thesis
    proof (cases "rest = []")
      case True
      then show ?thesis
        unfolding f typeOfSequence_define by (auto simp: bind_def split: sum.splits)
    next
      case False
      with Cons have "isFailure (typeOfSequence rest env')" for env'
        by simp
      then show ?thesis
        unfolding f typeOfSequence_define by (auto simp: bind_def split: sum.splits)
    qed
  next
    case False
    with Cons.prems have rest: "rest \<noteq> []"
      by auto
    with Cons have "isFailure (typeOfSequence rest env)"
      by simp
    with False rest show ?thesis
      by (auto simp: typeOfSequence_other bind_def split: sum.splits simp del: typeOfSequence.simps typeOfFirst.simps)
  qed
qed

lemma typeOfSequence_empty_after_define:
  "seq \<noteq> [] \<Longrightarrow> isDefineExp (last seq) \<Longrightarrow> typeOfSequence (seq @ [e]) env = Inr t
     \<Longrightarrow> typeOfSequence seq env = Inl (Failure ''Empty sequence'')"
proof (induction seq arbitrary: env)
  case Nil
  then show ?case by simp
next
  case (Cons f rest)
  show ?case
  proof (cases "isDefineExp f")
    case True
    then obtain vd val where f: "f = DefineExp vd val"
      by (cases f) auto
    from Cons.prems(3) obtain u env' where
      chk: "bind (typeofExp val env) (\<lambda>valTE. checkEqualType (texp vd) valTE (DefineExp vd val)) = Inr u"
      and cmb: "combineEnvs env (ExtendTEnv [var vd] [texp vd] env) = Inr env'"
      and tl: "typeOfSequence (rest @ [e]) env' = Inr t"
      unfolding f append_Cons typeOfSequence_define by (auto simp: bind_eq_Inr)
    have "typeOfSequence rest env' = Inl (Failure ''Empty sequence'')"
    proof (cases "rest = []")
      case True
      then show ?thesis by simp
    next
      case False
      with Cons.prems tl show ?thesis
        by (intro Cons.IH) auto
    qed
    with chk cmb show ?thesis
      unfolding f typeOfSequence_define by simp
  next
    case False
    with Cons.prems have rest: "rest \<noteq> []"
      by auto
    from Cons.prems(3) False have "typeOfSequence (rest @ [e]) env = Inr t"
      and ok: "\<exists>u. typeofExp f env = Inr u"
      unfolding append_Cons by (auto simp: typeOfSequence_other bind_eq_Inr simp del: typeOfSequence.simps typeOfFirst.simps)
    with Cons.prems rest have "typeOfSequence rest env = Inl (Failure ''Empty sequence'')"
      by (intro Cons.IH) auto
    with False rest ok show ?thesis
      by (auto simp: typeOfSequence_other simp del: typeOfSequence.simps typeOfFirst.simps)
  qed
qed

text \<open>
  Claim C10. A program whose last top-level form is a define returns a failure. When
  every form of the program is well-typed, which is stated here as: the program
  followed by one more form has a type, that failure is the empty-sequence failure.
\<close>

theorem program_ending_in_define_fails:
  assumes "seq \<noteq> []" and "isDefineExp (last seq)"
  shows "isFailure (typeofExp (Program seq) tenv)
       \<and> (typeofExp (Program (seq @ [e])) tenv = Inr t \<longrightarrow>
            typeofExp (Program seq) tenv = Inl (Failure ''Empty sequence''))"
  using assms typeOfSequence_last_define [of seq tenv]
        typeOfSequence_empty_after_define [of seq e tenv t]
  by simp

theorem program_ending_in_define_fails_witness:
  "[DefineExp (VarDecl ''x'' NumTExp) (NumExp 5)] \<noteq> []
   \<and> isDefineExp (last [DefineExp (VarDecl ''x'' NumTExp) (NumExp 5)])
   \<and> typeofExp (Program ([DefineExp (VarDecl ''x'' NumTExp) (NumExp 5)] @ [VarRef ''x'']))
        EmptyTEnv = Inr NumTExp
   \<and> typeofExp (Program [DefineExp (VarDecl ''x'' NumTExp) (NumExp 5)]) EmptyTEnv
        = Inl (Failure ''Empty sequence'')"
proof -
  let ?seq = "[DefineExp (VarDecl ''x'' NumTExp) (NumExp 5)]"
  have h1: "?seq \<noteq> []" and h2: "isDefineExp (last ?seq)"
    by simp_all
  have h3: "typeofExp (Program (?seq @ [VarRef ''x''])) EmptyTEnv = Inr NumTExp"
    by (simp add: Let_def combineEnvs_def checkEqualType_def typeofNum_def readAt_def)
  from program_ending_in_define_fails [OF h1 h2, of EmptyTEnv "VarRef ''x''" NumTExp] h3
  have "typeofExp (Program ?seq) EmptyTEnv = Inl (Failure ''Empty sequence'')"
    by blast
  with h1 h2 h3 show ?thesis
    by blast
qed

lemma combineEnvs_define_lookup:
  assumes "combineEnvs env (ExtendTEnv [x] [T] env) = Inr env'"
  shows "applyTEnv env' y =
     (if isFailure (applyTEnv env y) \<and> y = x then Inr T else applyTEnv env y)"
proof (cases env)
  case EmptyTEnv
  with assms show ?thesis
    by (auto simp: combineEnvs_def readAt_def)
next
  case (ExtendTEnv vs ts e)
  with assms have "makeNewEnv env (ExtendTEnv [x] [T] env) = Inr env'"
    by (simp add: combineEnvs_def)
  then have "env' = ExtendTEnv (filter (\<lambda>v. isFailure (applyTEnv env v)) [x])
       (map (\<lambda>v. [T] ! nat (indexOf [x] v)) (filter (\<lambda>v. isFailure (applyTEnv env v)) [x])) env"
    by (simp add: makeNewEnv_frame del: makeNewEnv.simps split: if_splits)
  then show ?thesis
    by (auto simp: readAt_def)
qed

lemma typeOfSequence_thread:
  "typeOfSequence (pre @ [e]) env = Inr t \<Longrightarrow>
     \<exists>env'. (\<forall>y ty. applyTEnv env y = Inr ty \<longrightarrow> applyTEnv env' y = Inr ty)
        \<and> (\<forall>e2. \<not> isDefineExp e2 \<longrightarrow> typeOfSequence (pre @ [e2]) env = typeofExp e2 env')"
proof (induction pre arbitrary: env)
  case Nil
  then show ?case
    by (intro exI [of _ env]) simp
next
  case (Cons f rest)
  show ?case
  proof (cases "isDefineExp f")
    case True
    then obtain vd val where f: "f = DefineExp vd val"
      by (cases f) auto
    from Cons.prems obtain u env1 where
      chk: "bind (typeofExp val env) (\<lambda>valTE. checkEqualType (texp vd) valTE (DefineExp vd val)) = Inr u"
      and cmb: "combineEnvs env (ExtendTEnv [var vd] [texp vd] env) = Inr env1"
      and tl: "typeOfSequence (rest @ [e]) env1 = Inr t"
      unfolding f append_Cons typeOfSequence_define by (auto simp: bind_eq_Inr)
    from Cons.IH [OF tl] obtain env' where
      mono: "\<forall>y ty. applyTEnv env1 y = Inr ty \<longrightarrow> applyTEnv env' y = Inr ty"
      and last: "\<forall>e2. \<not> isDefineExp e2 \<longrightarrow> typeOfSequence (rest @ [e2]) env1 = typeofExp e2 env'"
      by blast
    have "applyTEnv env y = Inr ty \<Longrightarrow> applyTEnv env' y = Inr ty" for y ty
      using mono combineEnvs_define_lookup [OF cmb, of y] by auto
    moreover have "typeOfSequence ((f # rest) @ [e2]) env = typeofExp e2 env'"
      if "\<not> isDefineExp e2" for e2
      using last that chk cmb unfolding f append_Cons typeOfSequence_define by simp
    ultimately show ?thesis
      by blast
  next
    case False
    from Cons.prems False have tl: "typeOfSequence (rest @ [e]) env = Inr t"
      and ok: "\<exists>u. typeofExp f env = Inr u"
      unfolding append_Cons by (auto simp: typeOfSequence_other bind_eq_Inr simp del: typeOfSequence.simps typeOfFirst.simps)
    from Cons.IH [OF tl] obtain env' where
      mono: "\<forall>y ty. applyTEnv env y = Inr ty \<longrightarrow> applyTEnv env' y = Inr ty"
      and last: "\<forall>e2. \<not> isDefineExp e2 \<longrightarrow> typeOfSequence (rest @ [e2]) env = typeofExp e2 env'"
      by blast
    have "typeOfSequence ((f # rest) @ [e2]) env = typeofExp e2 env'"
      if "\<not> isDefineExp e2" for e2
      using last that ok False unfolding append_Cons
      by (auto simp: typeOfSequence_other simp del: typeOfSequence.simps typeOfFirst.simps)
    with mono show ?thesis
      by blast
  qed
qed

lemma typeOfSequence_success_last:
  assumes "typeOfSequence seq env = Inr t"
  shows "seq \<noteq> [] \<and> \<not> isDefineExp (last seq)"
proof -
  have "seq \<noteq> []"
    using assms by auto
  moreover have "\<not> isDefineExp (last seq)"
    using typeOfSequence_last_define [OF \<open>seq \<noteq> []\<close>, of env] assms by auto
  ultimately show ?thesis
    by simp
qed

text \<open>
  Claim C1, as stated, at the program \<open>(L5 (define (x : number) 5) (define (x : boolean) #t) x)\<close>:
  the second define, met mid-sequence, does not extend the environment seen by the
  last form with its binding. The program has the type \<open>number\<close>, while the last form has
  the type \<open>boolean\<close> in the environment extended by the second define.
\<close>

theorem redefinition_keeps_first_type_counterexample:
  "typeofExp (Program [DefineExp (VarDecl ''x'' NumTExp) (NumExp 5),
                       DefineExp (VarDecl ''x'' BoolTExp) (BoolExp True),
                       VarRef ''x'']) EmptyTEnv = Inr NumTExp
   \<and> typeofExp (VarRef ''x'')
        (ExtendTEnv [''x''] [BoolTExp] (ExtendTEnv [''x''] [NumTExp] EmptyTEnv)) = Inr BoolTExp"
  by (simp add: Let_def combineEnvs_def checkEqualType_def typeofNum_def typeofBool_def
        readAt_def)

text \<open>
  Claim C1, amended. The sequence typer processes the forms left to right. An empty
  sequence fails. A define whose value has the declared type continues with the rest
  of the sequence in the environment \<open>combineEnvs env (frame of the define on env)\<close>; in
  that environment every name keeps the type it resolved to before, and the defined
  name, when it was not resolvable before, resolves to the declared type. A non-define
  form is typed; its type is the result when it is the last form and is discarded
  otherwise. Whenever the sequence has a type, its last form is not a define and the
  type is that of the last form in an environment that preserves every binding of the
  initial one and depends only on the forms before the last. The program
  \<open>(L5 (define (x : number) 5) (+ x 1))\<close> is rendered \<open>number\<close>.
\<close>

theorem program_sequence_typing:
  "typeofExp (Program []) env = Inl (Failure ''Empty sequence'')
   \<and> typeofExp (Program (DefineExp vd val # rest)) env =
       bind (bind (typeofExp val env) (\<lambda>valTE. checkEqualType (texp vd) valTE (DefineExp vd val)))
         (\<lambda>_. bind (combineEnvs env (ExtendTEnv [var vd] [texp vd] env))
            (\<lambda>env'. typeofExp (Program rest) env'))
   \<and> (combineEnvs env (ExtendTEnv [var vd] [texp vd] env) = Inr env1 \<longrightarrow>
        (\<forall>y. applyTEnv env1 y =
           (if isFailure (applyTEnv env y) \<and> y = var vd then Inr (texp vd) else applyTEnv env y)))
   \<and> (\<not> isDefineExp e \<longrightarrow>
        typeofExp (Program (e # rest)) env =
          (if rest = [] then typeofExp e env
           else bind (typeofExp e env) (\<lambda>_. typeofExp (Program rest) env)))
   \<and> (typeofExp (Program seq) env = Inr t \<longrightarrow>
        seq \<noteq> [] \<and> \<not> isDefineExp (last seq)
        \<and> (\<exists>env'. typeofExp (last seq) env' = Inr t
              \<and> (\<forall>y ty. applyTEnv env y = Inr ty \<longrightarrow> applyTEnv env' y = Inr ty)
              \<and> (\<forall>e2. \<not> isDefineExp e2 \<longrightarrow>
                    typeofExp (Program (butlast seq @ [e2])) env = typeofExp e2 env')))
   \<and> (p s = Inr x
        \<and> parseL5Program x = Inr (Program [DefineExp (VarDecl ''x'' NumTExp) (NumExp 5),
                                     AppExp (PrimOp ''+'') [VarRef ''x'', NumExp 1]]) \<longrightarrow>
        L5programTypeof p parseL5Program s = Inr ''number'')"
proof (intro conjI impI allI)
  show "typeofExp (Program []) env = Inl (Failure ''Empty sequence'')"
    by simp
  show "typeofExp (Program (DefineExp vd val # rest)) env =
       bind (bind (typeofExp val env) (\<lambda>valTE. checkEqualType (texp vd) valTE (DefineExp vd val)))
         (\<lambda>_. bind (combineEnvs env (ExtendTEnv [var vd] [texp vd] env))
            (\<lambda>env'. typeofExp (Program rest) env'))"
    by (simp add: Let_def)
  show "applyTEnv env1 y =
           (if isFailure (applyTEnv env y) \<and> y = var vd then Inr (texp vd) else applyTEnv env y)"
    if "combineEnvs env (ExtendTEnv [var vd] [texp vd] env) = Inr env1" for y
    using combineEnvs_define_lookup [OF that] .
  show "typeofExp (Program (e # rest)) env =
          (if rest = [] then typeofExp e env
           else bind (typeofExp e env) (\<lambda>_. typeofExp (Program rest) env))"
    if "\<not> isDefineExp e"
    using that by simp
next
  assume ok: "typeofExp (Program seq) env = Inr t"
  then have seq: "typeOfSequence seq env = Inr t"
    by simp
  from typeOfSequence_success_last [OF seq]
  show "seq \<noteq> []" and nd: "\<not> isDefineExp (last seq)"
    by simp_all
  then have split: "seq = butlast seq @ [last seq]"
    by simp
  with seq have "typeOfSequence (butlast seq @ [last seq]) env = Inr t"
    by simp
  from typeOfSequence_thread [OF this] obtain env' where
    mono: "\<forall>y ty. applyTEnv env y = Inr ty \<longrightarrow> applyTEnv env' y = Inr ty"
    and last: "\<forall>e2. \<not> isDefineExp e2 \<longrightarrow>
                 typeOfSequence (butlast seq @ [e2]) env = typeofExp e2 env'"
    by blast
  from last nd split seq have "typeofExp (last seq) env' = Inr t"
    by metis
  with mono last
  show "\<exists>env'. typeofExp (last seq) env' = Inr t
              \<and> (\<forall>y ty. applyTEnv env y = Inr ty \<longrightarrow> applyTEnv env' y = Inr ty)
              \<and> (\<forall>e2. \<not> isDefineExp e2 \<longrightarrow>
                    typeofExp (Program (butlast seq @ [e2])) env = typeofExp e2 env')"
    by (intro exI [of _ env']) simp
next
  assume "p s = Inr x
        \<and> parseL5Program x = Inr (Program [DefineExp (VarDecl ''x'' NumTExp) (NumExp 5),
                                     AppExp (PrimOp ''+'') [VarRef ''x'', NumExp 1]])"
  then show "L5programTypeof p parseL5Program s = Inr ''number''"
    by (simp add: L5programTypeof_def unparseTExp_def Let_def combineEnvs_def
          checkEqualType_def numOpTExp_def parseTE_def typeofNum_def readAt_def)
qed

theorem program_sequence_typing_witness:
  "combineEnvs EmptyTEnv (ExtendTEnv [var (VarDecl ''x'' NumTExp)] [texp (VarDecl ''x'' NumTExp)] EmptyTEnv)
      = Inr (ExtendTEnv [''x''] [NumTExp] EmptyTEnv)
   \<and> applyTEnv (ExtendTEnv [''x''] [NumTExp] EmptyTEnv) ''x'' = Inr NumTExp
   \<and> \<not> isDefineExp (AppExp (PrimOp ''+'') [VarRef ''x'', NumExp 1])
   \<and> typeofExp (Program [DefineExp (VarDecl ''x'' NumTExp) (NumExp 5),
                          AppExp (PrimOp ''+'') [VarRef ''x'', NumExp 1]]) EmptyTEnv = Inr NumTExp
   \<and> \<not> isDefineExp (last [DefineExp (VarDecl ''x'' NumTExp) (NumExp 5),
                          AppExp (PrimOp ''+'') [VarRef ''x'', NumExp 1]])
   \<and> L5programTypeof Inr
        (\<lambda>x. Inr (Program [DefineExp (VarDecl ''x'' NumTExp) (NumExp 5),
                            AppExp (PrimOp ''+'') [VarRef ''x'', NumExp 1]]))
        ''(L5 (define (x : number) 5) (+ x 1))'' = Inr ''number''"
proof -
  let ?vd = "VarDecl ''x'' NumTExp"
  let ?e = "AppExp (PrimOp ''+'') [VarRef ''x'', NumExp 1]"
  let ?prog = "[DefineExp ?vd (NumExp 5), ?e]"
  let ?env1 = "ExtendTEnv [''x''] [NumTExp] EmptyTEnv"
  let ?parse = "\<lambda>x :: string. (Inr (Program ?prog) :: failure + Exp)"
  let ?src = "''(L5 (define (x : number) 5) (+ x 1))''"
  note inst = program_sequence_typing [of EmptyTEnv ?vd "NumExp 5" "[?e]" ?env1 ?e ?prog NumTExp
                Inr ?src ?src ?parse]
  have h1: "combineEnvs EmptyTEnv (ExtendTEnv [var ?vd] [texp ?vd] EmptyTEnv) = Inr ?env1"
    by (simp add: combineEnvs_def)
  have h2: "\<not> isDefineExp ?e"
    by simp
  have h3: "typeofExp (Program ?prog) EmptyTEnv = Inr NumTExp"
    by (simp add: Let_def combineEnvs_def checkEqualType_def typeofNum_def readAt_def
          numOpTExp_def parseTE_def)
  have h4: "Inr ?src = (Inr ?src :: failure + string) \<and> ?parse ?src = Inr (Program ?prog)"
    by simp
  have c1: "applyTEnv ?env1 ''x'' = Inr NumTExp"
    using inst h1 by (simp add: readAt_def)
  have c2: "\<not> isDefineExp (last ?prog)"
    using inst h3 by blast
  have c3: "L5programTypeof Inr ?parse ?src = Inr ''number''"
    using inst h4 by blast
  show ?thesis
    using h1 h2 h3 c1 c2 c3 by blast
qed

section \<open>Primitive operators\<close>

lemma parseTE_roundtrip:
  "parseTE s = Inr t \<Longrightarrow> unparseTExpText t = s"
  by (auto simp: parseTE_def split: if_splits)

text \<open>
  Claim C4, as stated, at two independent references, one to \<open>number?\<close> and one to
  \<open>boolean?\<close>: both are given the same procedure type, in which the one type-variable
  name \<open>T\<close> occurs.
\<close>

theorem polymorphic_primitive_names_counterexample:
  "typeofPrim (PrimOp ''number?'') = Inr (ProcTExp [TVar ''T''] BoolTExp)
   \<and> typeofPrim (PrimOp ''boolean?'') = Inr (ProcTExp [TVar ''T''] BoolTExp)
   \<and> isContainedTvar ''T'' (ProcTExp [TVar ''T''] BoolTExp)"
  by (simp add: parseTE_def)

text \<open>
  Claim C4, amended. Every reference to a polymorphic primitive operator is given
  the fixed procedure type of the table, and its type variables carry the fixed names
  of the signature text: \<open>T\<close> for the six unary predicates and for \<open>display\<close>, \<open>T1\<close> and
  \<open>T2\<close> for \<open>eq?\<close>, \<open>string=?\<close>, \<open>cons\<close>, \<open>car\<close> and \<open>cdr\<close>. Two references to such
  primitives share these names.
\<close>

theorem polymorphic_primitive_types:
  "(p \<in> {''number?'', ''boolean?'', ''string?'', ''list?'', ''pair?'', ''symbol?''} \<longrightarrow>
      typeofPrim (PrimOp p) = Inr (ProcTExp [TVar ''T''] BoolTExp))
   \<and> (p \<in> {''eq?'', ''string=?''} \<longrightarrow>
      typeofPrim (PrimOp p) = Inr (ProcTExp [TVar ''T1'', TVar ''T2''] BoolTExp))
   \<and> typeofPrim (PrimOp ''display'') = Inr (ProcTExp [TVar ''T''] VoidTExp)
   \<and> typeofPrim (PrimOp ''cons'')
       = Inr (ProcTExp [TVar ''T1'', TVar ''T2''] (PairTExp (TVar ''T1'') (TVar ''T2'')))
   \<and> typeofPrim (PrimOp ''car'')
       = Inr (ProcTExp [PairTExp (TVar ''T1'') (TVar ''T2'')] (TVar ''T1''))
   \<and> typeofPrim (PrimOp ''cdr'')
       = Inr (ProcTExp [PairTExp (TVar ''T1'') (TVar ''T2'')] (TVar ''T2''))"
  by (auto simp: parseTE_def)

theorem polymorphic_primitive_types_witness:
  "''pair?'' \<in> {''number?'', ''boolean?'', ''string?'', ''list?'', ''pair?'', ''symbol?''}
   \<and> typeofPrim (PrimOp ''pair?'') = Inr (ProcTExp [TVar ''T''] BoolTExp)
   \<and> ''eq?'' \<in> {''eq?'', ''string=?''}
   \<and> typeofPrim (PrimOp ''eq?'') = Inr (ProcTExp [TVar ''T1'', TVar ''T2''] BoolTExp)"
  using polymorphic_primitive_types [of "''pair?''"] polymorphic_primitive_types [of "''eq?''"]
  by simp

end
